theory Spec2Isabelle
  imports Main "HOL-Library.Word"
begin

section \<open>The UDP input service (services/udp/service.go)\<close>

text \<open>
  The service runs three stage loops (\<open>serve\<close>, \<open>parser\<close>, \<open>writer\<close>) that share one
  \<open>Service\<close> value. Each loop is a \<open>for { select { ... } }\<close>; it is embedded as a recursive
  function over the list of outcomes its successive \<open>select\<close> statements take. Every effect a
  loop has on the outside (a channel send, an atomic counter update, a log line, a call of a
  collaborator, closing the socket) is appended, in program order, to the \<open>effects\<close> field, so
  that statements about what was sent or called, and in which order, can be made.

  The collaborators that are not part of this package (the line protocol decoder, the meta
  client, the points writer, the \<open>net\<close> package) are parameters, collected in the record
  \<open>Collaborators\<close>; the stateful ones thread a state of the outside world of type \<open>'w\<close>.
  \<open>models.Point\<close> is a type parameter \<open>'p\<close>.
\<close>

subsection \<open>Data\<close>

type_synonym byte = "8 word"
type_synonym int64 = "64 word"
type_synonym Time = int

datatype error = Error string

text \<open>The constants of the package.\<close>

definition parserChanLen :: nat where
  "parserChanLen = 1000"

definition MaxUDPPayload :: nat where
  "MaxUDPPayload = 64 * 1024"

text \<open>The fields of \<open>Config\<close> that service.go reads (the type is declared in config.go).\<close>

record Config =
  BindAddress :: string
  Database :: string
  RetentionPolicy :: string
  BatchSize :: int
  BatchPending :: int
  ReadBuffer :: int
  BatchTimeout :: int
  Precision :: string

record Statistics =
  PointsReceived :: int64
  BytesReceived :: int64
  PointsParseFail :: int64
  ReadFail :: int64
  BatchesTransmitted :: int64
  PointsTransmitted :: int64
  BatchesTransmitFail :: int64

text \<open>The address of one field of \<open>Statistics\<close>, as passed to \<open>atomic.AddInt64\<close>.\<close>

datatype Counter =
    RefPointsReceived
  | RefBytesReceived
  | RefPointsParseFail
  | RefReadFail
  | RefBatchesTransmitted
  | RefPointsTransmitted
  | RefBatchesTransmitFail

datatype ConsistencyLevel = ConsistencyLevelAny

datatype UDPAddr = UDPAddr string
datatype UDPConn = UDPConn UDPAddr

text \<open>\<open>tsdb.NewPointBatcher(size, pending, duration)\<close>: only its construction is visible here.\<close>

datatype PointBatcher = NewPointBatcher int int int

datatype Stage = StageServe | StageParser | StageWriter

datatype 'p Effect =
    LogInfo string
  | AtomicAddInt64 Counter int64
  | SendParserChan "byte list"
  | SendBatcherIn 'p
  | CallCreateDatabase string "error option"
  | CallWritePointsPrivileged string string ConsistencyLevel "'p list" "error option"
  | ConnClose
  | BatcherStart
  | Go Stage
  | CloseReady

record ('p, 'w) Service =
  conn :: "UDPConn option"
  addr :: "UDPAddr option"
  wg :: int
  ready :: bool
  batcher :: "PointBatcher option"
  config :: Config
  stats :: Statistics
  world :: 'w
  effects :: "'p Effect list"

text \<open>
  The functions of other packages that service.go calls. \<open>ParsePointsWithPrecision\<close> returns
  Go's pair \<open>(points, err)\<close>: both components are kept, since the decoder may return points
  together with a non-nil error.
\<close>

record ('p, 'w) Collaborators =
  ParsePointsWithPrecision :: "byte list \<Rightarrow> Time \<Rightarrow> string \<Rightarrow> 'p list \<times> error option"
  CreateDatabase :: "string \<Rightarrow> 'w \<Rightarrow> error option \<times> 'w"
  WritePointsPrivileged ::
    "string \<Rightarrow> string \<Rightarrow> ConsistencyLevel \<Rightarrow> 'p list \<Rightarrow> 'w \<Rightarrow> error option \<times> 'w"
  ResolveUDPAddr :: "string \<Rightarrow> string \<Rightarrow> 'w \<Rightarrow> (error + UDPAddr) \<times> 'w"
  ListenUDP :: "string \<Rightarrow> UDPAddr \<Rightarrow> 'w \<Rightarrow> (error + UDPConn) \<times> 'w"
  SetReadBuffer :: "UDPConn \<Rightarrow> int \<Rightarrow> 'w \<Rightarrow> error option \<times> 'w"

subsection \<open>Primitive effects\<close>

definition emit :: "'p Effect \<Rightarrow> ('p, 'w) Service \<Rightarrow> ('p, 'w) Service" where
  "emit e s = s\<lparr>effects := effects s @ [e]\<rparr>"

definition Logger_Info :: "string \<Rightarrow> ('p, 'w) Service \<Rightarrow> ('p, 'w) Service" where
  "Logger_Info msg s = emit (LogInfo msg) s"

fun add_counter :: "Counter \<Rightarrow> int64 \<Rightarrow> Statistics \<Rightarrow> Statistics" where
  "add_counter RefPointsReceived d st = st\<lparr>PointsReceived := PointsReceived st + d\<rparr>"
| "add_counter RefBytesReceived d st = st\<lparr>BytesReceived := BytesReceived st + d\<rparr>"
| "add_counter RefPointsParseFail d st = st\<lparr>PointsParseFail := PointsParseFail st + d\<rparr>"
| "add_counter RefReadFail d st = st\<lparr>ReadFail := ReadFail st + d\<rparr>"
| "add_counter RefBatchesTransmitted d st =
     st\<lparr>BatchesTransmitted := BatchesTransmitted st + d\<rparr>"
| "add_counter RefPointsTransmitted d st =
     st\<lparr>PointsTransmitted := PointsTransmitted st + d\<rparr>"
| "add_counter RefBatchesTransmitFail d st =
     st\<lparr>BatchesTransmitFail := BatchesTransmitFail st + d\<rparr>"

text \<open>\<open>atomic.AddInt64(&s.stats.F, d)\<close>: 64-bit addition, which wraps.\<close>

definition atomic_AddInt64 :: "Counter \<Rightarrow> int64 \<Rightarrow> ('p, 'w) Service \<Rightarrow> ('p, 'w) Service" where
  "atomic_AddInt64 c d s = emit (AtomicAddInt64 c d) (s\<lparr>stats := add_counter c d (stats s)\<rparr>)"

text \<open>
  The two channel sends. Both block in the source until the receiver takes the value; the
  model records the completed send.
\<close>

definition send_parserChan :: "byte list \<Rightarrow> ('p, 'w) Service \<Rightarrow> ('p, 'w) Service" where
  "send_parserChan b s = emit (SendParserChan b) s"

definition send_batcher_In :: "('p, 'w) Service \<Rightarrow> 'p \<Rightarrow> ('p, 'w) Service" where
  "send_batcher_In s p = emit (SendBatcherIn p) s"

definition wg_Done :: "('p, 'w) Service \<Rightarrow> ('p, 'w) Service" where
  "wg_Done s = s\<lparr>wg := wg s - 1\<rparr>"

subsection \<open>NewService\<close>

text \<open>
  \<open>Config.WithDefaults\<close> is declared in config.go and is a parameter here. The fields that
  the composite literal does not name have Go's zero value.
\<close>

definition zero_Statistics :: Statistics where
  "zero_Statistics = \<lparr>PointsReceived = 0, BytesReceived = 0, PointsParseFail = 0, ReadFail = 0,
     BatchesTransmitted = 0, PointsTransmitted = 0, BatchesTransmitFail = 0\<rparr>"

definition NewService :: "(Config \<Rightarrow> Config) \<Rightarrow> Config \<Rightarrow> 'w \<Rightarrow> ('p, 'w) Service" where
  "NewService WithDefaults c w =
     (let d = WithDefaults c in
      \<lparr>conn = None, addr = None, wg = 0, ready = False, batcher = None, config = d,
       stats = zero_Statistics, world = w, effects = []\<rparr>)"

subsection \<open>The writer loop\<close>

definition createInternalStorage ::
  "('p, 'w) Collaborators \<Rightarrow> ('p, 'w) Service \<Rightarrow> error option \<times> ('p, 'w) Service" where
  "createInternalStorage X s =
     (if ready s then (None, s)
      else
        (case CreateDatabase X (Database (config s)) (world s) of
           (Some e, w) \<Rightarrow>
             (Some e, emit (CallCreateDatabase (Database (config s)) (Some e)) (s\<lparr>world := w\<rparr>))
         | (None, w) \<Rightarrow>
             (None,
              (emit (CallCreateDatabase (Database (config s)) None) (s\<lparr>world := w\<rparr>))
                \<lparr>ready := True\<rparr>)))"

text \<open>The body of \<open>case batch := <-s.batcher.Out()\<close>.\<close>

definition writer_batch ::
  "('p, 'w) Collaborators \<Rightarrow> 'p list \<Rightarrow> ('p, 'w) Service \<Rightarrow> ('p, 'w) Service" where
  "writer_batch X batch s =
     (case createInternalStorage X s of
        (Some e, s1) \<Rightarrow> Logger_Info ''Required database does not yet exist'' s1
      | (None, s1) \<Rightarrow>
          (case WritePointsPrivileged X (Database (config s1)) (RetentionPolicy (config s1))
                  ConsistencyLevelAny batch (world s1) of
             (None, w) \<Rightarrow>
               atomic_AddInt64 RefPointsTransmitted (of_nat (length batch))
                 (atomic_AddInt64 RefBatchesTransmitted 1
                    (emit (CallWritePointsPrivileged (Database (config s1))
                             (RetentionPolicy (config s1)) ConsistencyLevelAny batch None)
                       (s1\<lparr>world := w\<rparr>)))
           | (Some e, w) \<Rightarrow>
               atomic_AddInt64 RefBatchesTransmitFail 1
                 (Logger_Info ''Failed to write point batch to database''
                    (emit (CallWritePointsPrivileged (Database (config s1))
                             (RetentionPolicy (config s1)) ConsistencyLevelAny batch (Some e))
                       (s1\<lparr>world := w\<rparr>)))))"

text \<open>
  The outcomes of the writer's \<open>select\<close>. When the list of outcomes is used up the loop is
  blocked in its \<open>select\<close>: it has not returned, and the deferred \<open>wg.Done\<close> has not run.
\<close>

datatype 'p WriterSelect = WriterDone | WriterBatch "'p list"

fun writer ::
  "('p, 'w) Collaborators \<Rightarrow> 'p WriterSelect list \<Rightarrow> ('p, 'w) Service \<Rightarrow> ('p, 'w) Service" where
  "writer X [] s = s"
| "writer X (WriterDone # rest) s = wg_Done s"
| "writer X (WriterBatch batch # rest) s = writer X rest (writer_batch X batch s)"

subsection \<open>The serve loop\<close>

record readpayload =
  nbytes :: nat
  err :: "error option"

text \<open>
  The outcomes of the outer \<open>select\<close> of \<open>serve\<close>. A payload comes with the contents that the
  shared read buffer \<open>buf\<close> has when the loop copies it; \<open>ReadFromUDP\<close> returns
  \<open>nbytes \<le> len(buf)\<close>, so \<open>buf[:nbytes]\<close> is \<open>take nbytes buf\<close>. These contents are the
  datagram of that read only if the read goroutine has not read again in between: the
  goroutine and the buffer are part of the step by step model below.
\<close>

datatype ServeSelect = ServeDone | ServePayload readpayload "byte list"

definition serve_payload ::
  "readpayload \<Rightarrow> byte list \<Rightarrow> ('p, 'w) Service \<Rightarrow> ('p, 'w) Service" where
  "serve_payload payload buf s =
     (if err payload \<noteq> None then
        Logger_Info ''Failed to read UDP message'' (atomic_AddInt64 RefReadFail 1 s)
      else
        (let s1 = atomic_AddInt64 RefBytesReceived (of_nat (nbytes payload)) s;
             bufCopy = take (nbytes payload) buf
         in send_parserChan bufCopy s1))"

fun serve :: "ServeSelect list \<Rightarrow> ('p, 'w) Service \<Rightarrow> ('p, 'w) Service" where
  "serve [] s = s"
| "serve (ServeDone # rest) s = wg_Done (emit ConnClose s)"
| "serve (ServePayload payload buf # rest) s = serve rest (serve_payload payload buf s)"

subsection \<open>The parser loop\<close>

text \<open>A received buffer comes with the value of \<open>time.Now().UTC()\<close> at its decoding.\<close>

datatype ParserSelect = ParserDone | ParserBuf "byte list" Time

definition parser_buf ::
  "('p, 'w) Collaborators \<Rightarrow> byte list \<Rightarrow> Time \<Rightarrow> ('p, 'w) Service \<Rightarrow> ('p, 'w) Service" where
  "parser_buf X buf now s =
     (case ParsePointsWithPrecision X buf now (Precision (config s)) of
        (points, Some e) \<Rightarrow>
          Logger_Info ''Failed to parse points'' (atomic_AddInt64 RefPointsParseFail 1 s)
      | (points, None) \<Rightarrow>
          atomic_AddInt64 RefPointsReceived (of_nat (length points))
            (foldl send_batcher_In s points))"

fun parser ::
  "('p, 'w) Collaborators \<Rightarrow> ParserSelect list \<Rightarrow> ('p, 'w) Service \<Rightarrow> ('p, 'w) Service" where
  "parser X [] s = s"
| "parser X (ParserDone # rest) s = wg_Done s"
| "parser X (ParserBuf buf now # rest) s = parser X rest (parser_buf X buf now s)"

subsection \<open>RunWithReady\<close>

text \<open>
  The three goroutines run concurrently in the source. A \<open>Schedule\<close> gives the outcomes of
  the \<open>select\<close> statements of each loop; the model runs the loops one after the other on the
  shared \<open>Service\<close>. Apart from \<open>wg\<close> and \<open>effects\<close>, no field is written by two loops:
  each counter of \<open>stats\<close> belongs to one loop, and \<open>ready\<close> and the collaborators' state
  belong to the writer.
\<close>

record 'p Schedule =
  serve_selects :: "ServeSelect list"
  parser_selects :: "ParserSelect list"
  writer_selects :: "'p WriterSelect list"

definition run_stages ::
  "('p, 'w) Collaborators \<Rightarrow> 'p Schedule \<Rightarrow> ('p, 'w) Service \<Rightarrow> ('p, 'w) Service" where
  "run_stages X sch s =
     writer X (writer_selects sch) (parser X (parser_selects sch) (serve (serve_selects sch) s))"

text \<open>
  The result is \<open>None\<close> when \<open>RunWithReady\<close> does not return: \<open>s.wg.Wait()\<close> returns only when
  the counter is back at zero, that is when the three loops have run their \<open>wg.Done\<close>.
  Otherwise the result is the returned \<open>err\<close> and the service.
\<close>

definition RunWithReady ::
  "('p, 'w) Collaborators \<Rightarrow> 'p Schedule \<Rightarrow> ('p, 'w) Service \<Rightarrow>
     (error option \<times> ('p, 'w) Service) option" where
  "RunWithReady X sch s =
     (if BindAddress (config s) = [] then
        Some (Some (Error ''bind address has to be specified in config''), s)
      else if Database (config s) = [] then
        Some (Some (Error ''database has to be specified in config''), s)
      else
        (case ResolveUDPAddr X ''udp'' (BindAddress (config s)) (world s) of
           (Inl e, w1) \<Rightarrow>
             Some (Some e,
               Logger_Info ''Failed to resolve UDP address'' (s\<lparr>addr := None, world := w1\<rparr>))
         | (Inr a, w1) \<Rightarrow>
             (case ListenUDP X ''udp'' a w1 of
                (Inl e, w2) \<Rightarrow>
                  Some (Some e,
                    Logger_Info ''Failed to set up UDP listener''
                      (s\<lparr>addr := Some a, conn := None, world := w2\<rparr>))
              | (Inr c, w2) \<Rightarrow>
                  (let s2 = s\<lparr>addr := Some a, conn := Some c, world := w2\<rparr> in
                   (case (if ReadBuffer (config s2) \<noteq> 0
                          then SetReadBuffer X c (ReadBuffer (config s2)) w2
                          else (None, w2)) of
                      (Some e, w3) \<Rightarrow>
                        Some (Some e,
                          Logger_Info ''Failed to set UDP read buffer'' (s2\<lparr>world := w3\<rparr>))
                    | (None, w3) \<Rightarrow>
                        (let s3 = s2\<lparr>world := w3,
                                     batcher := Some (NewPointBatcher (BatchSize (config s2))
                                       (BatchPending (config s2)) (BatchTimeout (config s2)))\<rparr>;
                             s4 = emit BatcherStart s3;
                             s5 = Logger_Info ''Started listening on UDP'' s4;
                             s6 = s5\<lparr>wg := wg s5 + 3\<rparr>;
                             s7 = emit (Go StageServe) s6;
                             s8 = emit (Go StageParser) s7;
                             s9 = emit (Go StageWriter) s8;
                             s10 = emit CloseReady s9;
                             s11 = run_stages X sch s10
                         in if wg s11 = 0
                            then Some (None, Logger_Info ''Service closed'' s11)
                            else None))))))"

definition Run ::
  "('p, 'w) Collaborators \<Rightarrow> 'p Schedule \<Rightarrow> ('p, 'w) Service \<Rightarrow>
     (error option \<times> ('p, 'w) Service) option" where
  "Run X sch s = RunWithReady X sch s"

subsection \<open>The stages step by step\<close>

text \<open>
  The loops above take the outcome of each \<open>select\<close> as given and let every channel send
  complete. Here the same code runs step by step, together with what it shares: the read
  goroutine that \<open>serve\<close> starts (l.215-221), the read buffer \<open>buf\<close> into which that
  goroutine reads and from which the loop copies, the unbuffered \<open>payloadChan\<close> between the
  two, the relay channel \<open>parserChan\<close> with its \<open>parserChanLen\<close> places, and the cancellation
  of \<open>ctx\<close>.

  \<^item> \<open>payloadChan\<close> holds the payload that the read goroutine is sending (it blocks in
    that send until the loop receives, and then reads again);
  \<^item> \<open>held_payload\<close> is the payload that the loop of \<open>serve\<close> has received and counted but
    not yet copied (it is between l.236 and l.239);
  \<^item> \<open>pending_send\<close> is the copy that the loop of \<open>serve\<close> is sending at l.240 while the
    relay channel is full: that send is not part of a \<open>select\<close>;
  \<^item> \<open>parserChan_queue\<close> is the contents of the relay channel, oldest first.
\<close>

record ('p, 'w) Pipeline =
  service :: "('p, 'w) Service"
  serve_buf :: "byte list"
  payloadChan :: "readpayload option"
  held_payload :: "readpayload option"
  pending_send :: "byte list option"
  parserChan_queue :: "byte list list"
  ctx_cancelled :: bool
  serve_returned :: bool
  parser_returned :: bool
  writer_returned :: bool

text \<open>
  The steps. \<open>ReadFromUDP data e\<close> is the read goroutine: its read returns the datagram
  \<open>data\<close> (cut to the length of the buffer) or the error \<open>e\<close>, and it offers the result on
  \<open>payloadChan\<close>. The other steps are one \<open>select\<close> outcome of a loop each, except
  \<open>ServeCopyAndSend\<close>, which is l.238-240 of the payload branch of \<open>serve\<close>.
\<close>

datatype 'p Step =
    CtxCancel
  | ReadFromUDP "byte list" "error option"
  | ServeSelectDone
  | ServeSelectPayload
  | ServeCopyAndSend
  | ParserSelectDone
  | ParserSelectBuf Time
  | WriterSelectDone
  | WriterSelectBatch "'p list"

text \<open>The loop of \<open>serve\<close> is at its \<open>select\<close>.\<close>

definition at_select :: "('p, 'w) Pipeline \<Rightarrow> bool" where
  "at_select P = (\<not> serve_returned P \<and> held_payload P = None \<and> pending_send P = None)"

text \<open>
  One step; \<open>None\<close> when the step cannot be taken in this state (the goroutine is blocked or
  has returned, the channel is empty, or \<open>ctx\<close> is not cancelled). When the parser takes a
  buffer from the full relay channel, the send that \<open>serve\<close> has pending completes.
\<close>

fun step ::
  "('p, 'w) Collaborators \<Rightarrow> 'p Step \<Rightarrow> ('p, 'w) Pipeline \<Rightarrow> ('p, 'w) Pipeline option" where
  "step X CtxCancel P = Some (P\<lparr>ctx_cancelled := True\<rparr>)"
| "step X (ReadFromUDP data e) P =
     (case payloadChan P of
        Some payload \<Rightarrow> None
      | None \<Rightarrow>
          (let n = min (length data) (length (serve_buf P)) in
           Some (P\<lparr>serve_buf := take n data @ drop n (serve_buf P),
                   payloadChan := Some \<lparr>nbytes = n, err = e\<rparr>\<rparr>)))"
| "step X ServeSelectDone P =
     (if at_select P \<and> ctx_cancelled P
      then Some (P\<lparr>service := wg_Done (emit ConnClose (service P)), serve_returned := True\<rparr>)
      else None)"
| "step X ServeSelectPayload P =
     (if at_select P then
        (case payloadChan P of
           None \<Rightarrow> None
         | Some payload \<Rightarrow>
             (if err payload \<noteq> None then
                Some (P\<lparr>payloadChan := None,
                        service := Logger_Info ''Failed to read UDP message''
                                     (atomic_AddInt64 RefReadFail 1 (service P))\<rparr>)
              else
                Some (P\<lparr>payloadChan := None,
                        service := atomic_AddInt64 RefBytesReceived (of_nat (nbytes payload))
                                     (service P),
                        held_payload := Some payload\<rparr>)))
      else None)"
| "step X ServeCopyAndSend P =
     (case held_payload P of
        None \<Rightarrow> None
      | Some payload \<Rightarrow>
          (let bufCopy = take (nbytes payload) (serve_buf P) in
           if length (parserChan_queue P) < parserChanLen then
             Some (P\<lparr>held_payload := None,
                     parserChan_queue := parserChan_queue P @ [bufCopy],
                     service := send_parserChan bufCopy (service P)\<rparr>)
           else
             Some (P\<lparr>held_payload := None, pending_send := Some bufCopy\<rparr>)))"
| "step X ParserSelectDone P =
     (if \<not> parser_returned P \<and> ctx_cancelled P
      then Some (P\<lparr>service := wg_Done (service P), parser_returned := True\<rparr>)
      else None)"
| "step X (ParserSelectBuf now) P =
     (if parser_returned P then None
      else
        (case parserChan_queue P of
           [] \<Rightarrow> None
         | b # q \<Rightarrow>
             (let P1 = (case pending_send P of
                          None \<Rightarrow> P\<lparr>parserChan_queue := q\<rparr>
                        | Some c \<Rightarrow>
                            P\<lparr>parserChan_queue := q @ [c], pending_send := None,
                              service := send_parserChan c (service P)\<rparr>)
              in Some (P1\<lparr>service := parser_buf X b now (service P1)\<rparr>))))"
| "step X WriterSelectDone P =
     (if \<not> writer_returned P \<and> ctx_cancelled P
      then Some (P\<lparr>service := wg_Done (service P), writer_returned := True\<rparr>)
      else None)"
| "step X (WriterSelectBatch batch) P =
     (if writer_returned P then None
      else Some (P\<lparr>service := writer_batch X batch (service P)\<rparr>))"

fun run_steps ::
  "('p, 'w) Collaborators \<Rightarrow> 'p Step list \<Rightarrow> ('p, 'w) Pipeline \<Rightarrow>
     ('p, 'w) Pipeline option" where
  "run_steps X [] P = Some P"
| "run_steps X (st # sts) P =
     (case step X st P of None \<Rightarrow> None | Some P' \<Rightarrow> run_steps X sts P')"

text \<open>
  The state when \<open>RunWithReady\<close> has started the three goroutines, \<open>s\<close> being the service at
  that point: \<open>buf := make([]byte, MaxUDPPayload)\<close>, the channels empty. \<open>s.wg.Wait()\<close> returns
  in a state whose \<open>wg\<close> is zero.
\<close>

definition launch :: "('p, 'w) Service \<Rightarrow> ('p, 'w) Pipeline" where
  "launch s =
     \<lparr>service = s, serve_buf = replicate MaxUDPPayload 0, payloadChan = None,
      held_payload = None, pending_send = None, parserChan_queue = [],
      ctx_cancelled = False, serve_returned = False, parser_returned = False,
      writer_returned = False\<rparr>"

subsection \<open>Reading the effects\<close>

definition batcherIn_sends :: "'p Effect list \<Rightarrow> 'p list" where
  "batcherIn_sends es = concat (map (\<lambda>e. case e of SendBatcherIn p \<Rightarrow> [p] | _ \<Rightarrow> []) es)"

definition parserChan_sends :: "'p Effect list \<Rightarrow> byte list list" where
  "parserChan_sends es = concat (map (\<lambda>e. case e of SendParserChan b \<Rightarrow> [b] | _ \<Rightarrow> []) es)"

text \<open>The results of the \<open>CreateDatabase\<close> calls, in call order.\<close>

definition create_calls :: "'p Effect list \<Rightarrow> error option list" where
  "create_calls es =
     concat (map (\<lambda>e. case e of CallCreateDatabase n r \<Rightarrow> [r] | _ \<Rightarrow> []) es)"

text \<open>The batches and results of the \<open>WritePointsPrivileged\<close> calls, in call order.\<close>

definition write_calls :: "'p Effect list \<Rightarrow> ('p list \<times> error option) list" where
  "write_calls es =
     concat (map (\<lambda>e. case e of CallWritePointsPrivileged d r c b x \<Rightarrow> [(b, x)] | _ \<Rightarrow> []) es)"

definition launched :: "'p Effect list \<Rightarrow> Stage list" where
  "launched es = concat (map (\<lambda>e. case e of Go g \<Rightarrow> [g] | _ \<Rightarrow> []) es)"

text \<open>How many times the \<open>ready\<close> channel was closed.\<close>

definition ready_closes :: "'p Effect list \<Rightarrow> nat" where
  "ready_closes es = length (filter (\<lambda>e. e = CloseReady) es)"

subsection \<open>Notions of the statements\<close>

text \<open>
  With the loop of \<open>serve\<close> in its send and the parser gone, no step takes \<open>serve\<close> out of
  the send.
\<close>

definition serve_stuck :: "('p, 'w) Pipeline \<Rightarrow> bool" where
  "serve_stuck P =
     (pending_send P \<noteq> None \<and> held_payload P = None \<and> \<not> serve_returned P \<and>
      parser_returned P \<and> writer_returned P \<and> wg (service P) = 1)"

text \<open>The two failures of the \<open>net\<close> package at startup.\<close>

definition resolution_fails :: "('p, 'w) Collaborators \<Rightarrow> ('p, 'w) Service \<Rightarrow> bool" where
  "resolution_fails X s =
     isl (fst (ResolveUDPAddr X ''udp'' (BindAddress (config s)) (world s)))"

definition bind_fails :: "('p, 'w) Collaborators \<Rightarrow> ('p, 'w) Service \<Rightarrow> bool" where
  "bind_fails X s =
     (case ResolveUDPAddr X ''udp'' (BindAddress (config s)) (world s) of
        (Inl e, w1) \<Rightarrow> False
      | (Inr a, w1) \<Rightarrow> isl (fst (ListenUDP X ''udp'' a w1)))"

subsection \<open>A concrete instance\<close>

text \<open>
  Points are natural numbers and a datagram carries one point per byte; a zero byte is
  malformed, and the decoder then returns the points before it together with an error. The
  outside world counts the \<open>CreateDatabase\<close> and the \<open>WritePointsPrivileged\<close> calls: the
  first call of each fails, the later ones succeed.
\<close>

definition demo_config :: Config where
  "demo_config = \<lparr>BindAddress = '':8089'', Database = ''udp'', RetentionPolicy = ''autogen'',
     BatchSize = 5, BatchPending = 1, ReadBuffer = 0, BatchTimeout = 1000000000,
     Precision = ''n''\<rparr>"

definition demo_collab :: "(nat, nat \<times> nat) Collaborators" where
  "demo_collab =
     \<lparr>ParsePointsWithPrecision = (\<lambda>buf now prec.
        if 0 \<in> set buf
        then (map unat (takeWhile (\<lambda>b. b \<noteq> 0) buf), Some (Error ''unable to parse''))
        else (map unat buf, None)),
      CreateDatabase = (\<lambda>name (c, w).
        (if c = 0 then Some (Error ''create failed'') else None, (c + 1, w))),
      WritePointsPrivileged = (\<lambda>db rp cl batch (c, w).
        (if w = 0 then Some (Error ''write failed'') else None, (c, w + 1))),
      ResolveUDPAddr = (\<lambda>network a w.
        (if a = ''nowhere:x'' then Inl (Error ''unknown port'') else Inr (UDPAddr a), w)),
      ListenUDP = (\<lambda>network a w.
        (if a = UDPAddr '':53'' then Inl (Error ''address already in use'')
         else Inr (UDPConn a), w)),
      SetReadBuffer = (\<lambda>c n w. (if n < 0 then Some (Error ''invalid argument'') else None, w))\<rparr>"

definition demo_service :: "(nat, nat \<times> nat) Service" where
  "demo_service = NewService (\<lambda>c. c) demo_config (0, 0)"

text \<open>
  A run that is cancelled after one datagram with the two points 5 and 6 and two batches.
\<close>

definition demo_schedule :: "nat Schedule" where
  "demo_schedule =
     \<lparr>serve_selects = [ServePayload \<lparr>nbytes = 2, err = None\<rparr> [5, 6, 7], ServeDone],
      parser_selects = [ParserBuf [5, 6] 0, ParserDone],
      writer_selects = [WriterBatch [5], WriterBatch [6], WriterDone]\<rparr>"

text \<open>The service after that run, started on the new service.\<close>

definition demo_final :: "(nat, nat \<times> nat) Service" where
  "demo_final =
     demo_service\<lparr>ready := True,
       conn := Some (UDPConn (UDPAddr '':8089'')), addr := Some (UDPAddr '':8089''),
       batcher := Some (NewPointBatcher 5 1 1000000000),
       stats := zero_Statistics\<lparr>PointsReceived := 2, BytesReceived := 2,
         BatchesTransmitFail := 1\<rparr>,
       world := (2, 1),
       effects :=
         [BatcherStart, LogInfo ''Started listening on UDP'', Go StageServe,
          Go StageParser, Go StageWriter, CloseReady,
          AtomicAddInt64 RefBytesReceived 2, SendParserChan [5, 6], ConnClose,
          SendBatcherIn 5, SendBatcherIn 6, AtomicAddInt64 RefPointsReceived 2,
          CallCreateDatabase ''udp'' (Some (Error ''create failed'')),
          LogInfo ''Required database does not yet exist'',
          CallCreateDatabase ''udp'' None,
          CallWritePointsPrivileged ''udp'' ''autogen'' ConsistencyLevelAny [6]
            (Some (Error ''write failed'')),
          LogInfo ''Failed to write point batch to database'',
          AtomicAddInt64 RefBatchesTransmitFail 1,
          LogInfo ''Service closed'']\<rparr>"

text \<open>The same run on a service whose database exists already, and the service after it.\<close>

definition demo_ready_service :: "(nat, nat \<times> nat) Service" where
  "demo_ready_service = demo_service\<lparr>ready := True\<rparr>"

definition demo_ready_final :: "(nat, nat \<times> nat) Service" where
  "demo_ready_final =
     demo_service\<lparr>ready := True,
       conn := Some (UDPConn (UDPAddr '':8089'')), addr := Some (UDPAddr '':8089''),
       batcher := Some (NewPointBatcher 5 1 1000000000),
       stats := zero_Statistics\<lparr>PointsReceived := 2, BytesReceived := 2,
         BatchesTransmitted := 1, PointsTransmitted := 1, BatchesTransmitFail := 1\<rparr>,
       world := (0, 2),
       effects :=
         [BatcherStart, LogInfo ''Started listening on UDP'', Go StageServe,
          Go StageParser, Go StageWriter, CloseReady,
          AtomicAddInt64 RefBytesReceived 2, SendParserChan [5, 6], ConnClose,
          SendBatcherIn 5, SendBatcherIn 6, AtomicAddInt64 RefPointsReceived 2,
          CallWritePointsPrivileged ''udp'' ''autogen'' ConsistencyLevelAny [5]
            (Some (Error ''write failed'')),
          LogInfo ''Failed to write point batch to database'',
          AtomicAddInt64 RefBatchesTransmitFail 1,
          CallWritePointsPrivileged ''udp'' ''autogen'' ConsistencyLevelAny [6] None,
          AtomicAddInt64 RefBatchesTransmitted 1,
          AtomicAddInt64 RefPointsTransmitted 1,
          LogInfo ''Service closed'']\<rparr>"

text \<open>
  A run that is cancelled at once: the listener closes the socket, and the read that fails
  on the closed socket is the next thing that its inner read loop has to hand over.
\<close>

definition demo_cancel_schedule :: "nat Schedule" where
  "demo_cancel_schedule =
     \<lparr>serve_selects =
        [ServeDone,
         ServePayload \<lparr>nbytes = 0, err = Some (Error ''use of closed network connection'')\<rparr> []],
      parser_selects = [ParserDone],
      writer_selects = [WriterDone]\<rparr>"

definition demo_cancel_final :: "(nat, nat \<times> nat) Service" where
  "demo_cancel_final =
     demo_service\<lparr>conn := Some (UDPConn (UDPAddr '':8089'')),
       addr := Some (UDPAddr '':8089''),
       batcher := Some (NewPointBatcher 5 1 1000000000),
       effects :=
         [BatcherStart, LogInfo ''Started listening on UDP'', Go StageServe,
          Go StageParser, Go StageWriter, CloseReady, ConnClose,
          LogInfo ''Service closed'']\<rparr>"

text \<open>
  The new service when \<open>RunWithReady\<close> has started its three goroutines and closed the ready
  channel.
\<close>

definition demo_launched :: "(nat, nat \<times> nat) Service" where
  "demo_launched =
     demo_service\<lparr>conn := Some (UDPConn (UDPAddr '':8089'')),
       addr := Some (UDPAddr '':8089''),
       batcher := Some (NewPointBatcher 5 1 1000000000),
       wg := 3,
       effects :=
         [BatcherStart, LogInfo ''Started listening on UDP'', Go StageServe,
          Go StageParser, Go StageWriter, CloseReady]\<rparr>"

text \<open>
  Two datagrams, \<open>[1, 1]\<close> and then \<open>[2, 2]\<close>; the second read returns after the loop of
  \<open>serve\<close> has received the first payload and before it copies the buffer.
\<close>

definition demo_race_schedule :: "nat Step list" where
  "demo_race_schedule =
     [ReadFromUDP [1, 1] None, ServeSelectPayload, ReadFromUDP [2, 2] None, ServeCopyAndSend,
      ServeSelectPayload, ServeCopyAndSend, ParserSelectBuf 0, ParserSelectBuf 1]"

text \<open>
  One datagram read and relayed by \<open>serve\<close>.
\<close>

definition demo_round :: "nat Step list" where
  "demo_round = [ReadFromUDP [5] None, ServeSelectPayload, ServeCopyAndSend]"

text \<open>
  \<open>parserChanLen + 1\<close> datagrams arrive while the parser takes none of them; then \<open>ctx\<close> is
  cancelled, and the parser and the writer take their cancellation case.
\<close>

definition demo_hang_schedule :: "nat Step list" where
  "demo_hang_schedule =
     concat (replicate parserChanLen demo_round) @ demo_round @
     [CtxCancel, ParserSelectDone, WriterSelectDone]"

text \<open>The state after \<open>demo_race_schedule\<close>.\<close>

definition demo_race_final :: "(nat, nat \<times> nat) Pipeline" where
  "demo_race_final =
     (launch demo_launched)
       \<lparr>serve_buf := [2, 2] @ replicate (MaxUDPPayload - 2) 0,
        service := demo_launched
          \<lparr>stats := zero_Statistics\<lparr>BytesReceived := 4, PointsReceived := 4\<rparr>,
           effects := effects demo_launched @
             [AtomicAddInt64 RefBytesReceived 2, SendParserChan [2, 2],
              AtomicAddInt64 RefBytesReceived 2, SendParserChan [2, 2],
              SendBatcherIn 2, SendBatcherIn 2, AtomicAddInt64 RefPointsReceived 2,
              SendBatcherIn 2, SendBatcherIn 2, AtomicAddInt64 RefPointsReceived 2]\<rparr>\<rparr>"

section \<open>Auxiliary facts\<close>

lemmas prim_defs = emit_def Logger_Info_def atomic_AddInt64_def send_parserChan_def
  send_batcher_In_def wg_Done_def

lemmas demo_defs = demo_service_def demo_collab_def demo_config_def demo_schedule_def
  NewService_def zero_Statistics_def

lemma int64_add_exact:
  fixes x :: int64
  assumes "- (2 ^ 63) \<le> sint x + int k" and "sint x + int k < 2 ^ 63"
  shows "sint (x + of_nat k) = sint x + int k"
proof -
  have "x + of_nat k = word_of_int (sint x + int k)"
    by simp
  then have "sint (x + of_nat k) = signed_take_bit 63 (sint x + int k)"
    by (simp only: sint_sbintrunc') simp
  also have "\<dots> = sint x + int k"
    using assms by (simp add: signed_take_bit_int_eq_self)
  finally show ?thesis .
qed

lemma foldl_send_batcher_In:
  "foldl send_batcher_In s ps = s\<lparr>effects := effects s @ map SendBatcherIn ps\<rparr>"
  by (induction ps arbitrary: s) (simp_all add: send_batcher_In_def emit_def)

lemma batcherIn_sends_simps [simp]:
  "batcherIn_sends [] = []"
  "batcherIn_sends (xs @ ys) = batcherIn_sends xs @ batcherIn_sends ys"
  "batcherIn_sends (e # es) = (case e of SendBatcherIn p \<Rightarrow> [p] | _ \<Rightarrow> []) @ batcherIn_sends es"
  by (simp_all add: batcherIn_sends_def)

lemma batcherIn_sends_map_Send [simp]: "batcherIn_sends (map SendBatcherIn ps) = ps"
  by (induction ps) simp_all

lemma parserChan_sends_simps [simp]:
  "parserChan_sends [] = []"
  "parserChan_sends (xs @ ys) = parserChan_sends xs @ parserChan_sends ys"
  "parserChan_sends (e # es) =
     (case e of SendParserChan b \<Rightarrow> [b] | _ \<Rightarrow> []) @ parserChan_sends es"
  by (simp_all add: parserChan_sends_def)

lemma parserChan_sends_map_Send [simp]: "parserChan_sends (map SendBatcherIn ps) = []"
  by (induction ps) simp_all

lemma create_calls_simps [simp]:
  "create_calls [] = []"
  "create_calls (xs @ ys) = create_calls xs @ create_calls ys"
  "create_calls (e # es) =
     (case e of CallCreateDatabase n r \<Rightarrow> [r] | _ \<Rightarrow> []) @ create_calls es"
  by (simp_all add: create_calls_def)

lemma create_calls_map_Send [simp]: "create_calls (map SendBatcherIn ps) = []"
  by (induction ps) simp_all

lemma write_calls_simps [simp]:
  "write_calls [] = []"
  "write_calls (xs @ ys) = write_calls xs @ write_calls ys"
  "write_calls (e # es) =
     (case e of CallWritePointsPrivileged d r c b x \<Rightarrow> [(b, x)] | _ \<Rightarrow> []) @ write_calls es"
  by (simp_all add: write_calls_def)

lemma write_calls_map_Send [simp]: "write_calls (map SendBatcherIn ps) = []"
  by (induction ps) simp_all

lemma launched_simps [simp]:
  "launched [] = []"
  "launched (xs @ ys) = launched xs @ launched ys"
  "launched (e # es) = (case e of Go g \<Rightarrow> [g] | _ \<Rightarrow> []) @ launched es"
  by (simp_all add: launched_def)

lemma ready_closes_simps [simp]:
  "ready_closes [] = 0"
  "ready_closes (xs @ ys) = ready_closes xs + ready_closes ys"
  "ready_closes (e # es) = (if e = CloseReady then 1 else 0) + ready_closes es"
  by (simp_all add: ready_closes_def)

text \<open>The steps of the loops, with the updated service written out.\<close>

lemma parser_buf_ok:
  assumes "ParsePointsWithPrecision X buf now (Precision (config s)) = (points, None)"
  shows "parser_buf X buf now s =
     s\<lparr>effects := effects s @ map SendBatcherIn points @
                    [AtomicAddInt64 RefPointsReceived (of_nat (length points))],
       stats := (stats s)\<lparr>PointsReceived := PointsReceived (stats s) + of_nat (length points)\<rparr>\<rparr>"
  using assms by (simp add: parser_buf_def foldl_send_batcher_In prim_defs)

lemma parser_buf_fail:
  assumes "ParsePointsWithPrecision X buf now (Precision (config s)) = (points, Some e)"
  shows "parser_buf X buf now s =
     s\<lparr>effects := effects s @
                    [AtomicAddInt64 RefPointsParseFail 1, LogInfo ''Failed to parse points''],
       stats := (stats s)\<lparr>PointsParseFail := PointsParseFail (stats s) + 1\<rparr>\<rparr>"
  using assms by (simp add: parser_buf_def prim_defs)

lemma serve_payload_ok:
  assumes "err payload = None"
  shows "serve_payload payload buf s =
     s\<lparr>effects := effects s @
                    [AtomicAddInt64 RefBytesReceived (of_nat (nbytes payload)),
                     SendParserChan (take (nbytes payload) buf)],
       stats := (stats s)\<lparr>BytesReceived := BytesReceived (stats s) + of_nat (nbytes payload)\<rparr>\<rparr>"
  using assms by (simp add: serve_payload_def prim_defs)

lemma serve_payload_fail:
  assumes "err payload = Some e"
  shows "serve_payload payload buf s =
     s\<lparr>effects := effects s @
                    [AtomicAddInt64 RefReadFail 1, LogInfo ''Failed to read UDP message''],
       stats := (stats s)\<lparr>ReadFail := ReadFail (stats s) + 1\<rparr>\<rparr>"
  using assms by (simp add: serve_payload_def prim_defs)

lemma parser_buf_frame:
  "BytesReceived (stats (parser_buf X buf now s)) = BytesReceived (stats s)"
  "ReadFail (stats (parser_buf X buf now s)) = ReadFail (stats s)"
  "BatchesTransmitted (stats (parser_buf X buf now s)) = BatchesTransmitted (stats s)"
  "PointsTransmitted (stats (parser_buf X buf now s)) = PointsTransmitted (stats s)"
  "BatchesTransmitFail (stats (parser_buf X buf now s)) = BatchesTransmitFail (stats s)"
  "ready (parser_buf X buf now s) = ready s"
  "wg (parser_buf X buf now s) = wg s"
  "config (parser_buf X buf now s) = config s"
  "world (parser_buf X buf now s) = world s"
  "create_calls (effects (parser_buf X buf now s)) = create_calls (effects s)"
  "write_calls (effects (parser_buf X buf now s)) = write_calls (effects s)"
  "parserChan_sends (effects (parser_buf X buf now s)) = parserChan_sends (effects s)"
  by (simp_all add: parser_buf_def foldl_send_batcher_In prim_defs
        split: prod.splits option.splits)

lemma parser_BytesReceived:
  "BytesReceived (stats (parser X pevs s)) = BytesReceived (stats s)"
proof (induction pevs arbitrary: s)
  case Nil
  show ?case by simp
next
  case (Cons ev pevs)
  show ?case
    by (cases ev) (simp_all add: Cons.IH parser_buf_frame wg_Done_def)
qed

lemma createInternalStorage_ready:
  "ready s \<Longrightarrow> createInternalStorage X s = (None, s)"
  by (simp add: createInternalStorage_def)

lemma writer_batch_write_ok:
  assumes "ready s"
    and "WritePointsPrivileged X (Database (config s)) (RetentionPolicy (config s))
           ConsistencyLevelAny batch (world s) = (None, w)"
  shows "writer_batch X batch s =
     s\<lparr>world := w,
       effects := effects s @
         [CallWritePointsPrivileged (Database (config s)) (RetentionPolicy (config s))
            ConsistencyLevelAny batch None,
          AtomicAddInt64 RefBatchesTransmitted 1,
          AtomicAddInt64 RefPointsTransmitted (of_nat (length batch))],
       stats := (stats s)\<lparr>BatchesTransmitted := BatchesTransmitted (stats s) + 1,
         PointsTransmitted := PointsTransmitted (stats s) + of_nat (length batch)\<rparr>\<rparr>"
  using assms by (simp add: writer_batch_def createInternalStorage_ready prim_defs)

lemma writer_batch_write_fail:
  assumes "ready s"
    and "WritePointsPrivileged X (Database (config s)) (RetentionPolicy (config s))
           ConsistencyLevelAny batch (world s) = (Some e, w)"
  shows "writer_batch X batch s =
     s\<lparr>world := w,
       effects := effects s @
         [CallWritePointsPrivileged (Database (config s)) (RetentionPolicy (config s))
            ConsistencyLevelAny batch (Some e),
          LogInfo ''Failed to write point batch to database'',
          AtomicAddInt64 RefBatchesTransmitFail 1],
       stats := (stats s)\<lparr>BatchesTransmitFail := BatchesTransmitFail (stats s) + 1\<rparr>\<rparr>"
  using assms by (simp add: writer_batch_def createInternalStorage_ready prim_defs)

lemma writer_batch_create_fail:
  assumes "\<not> ready s"
    and "CreateDatabase X (Database (config s)) (world s) = (Some e, w)"
  shows "writer_batch X batch s =
     s\<lparr>world := w,
       effects := effects s @
         [CallCreateDatabase (Database (config s)) (Some e),
          LogInfo ''Required database does not yet exist'']\<rparr>"
  using assms by (simp add: writer_batch_def createInternalStorage_def prim_defs)

lemma createInternalStorage_frame:
  "ready (snd (createInternalStorage X s)) =
     (ready s \<or> fst (CreateDatabase X (Database (config s)) (world s)) = None)"
  "(fst (createInternalStorage X s) = None) = ready (snd (createInternalStorage X s))"
  "config (snd (createInternalStorage X s)) = config s"
  "stats (snd (createInternalStorage X s)) = stats s"
  "wg (snd (createInternalStorage X s)) = wg s"
  "create_calls (effects (snd (createInternalStorage X s))) =
     create_calls (effects s) @
       (if ready s then [] else [fst (CreateDatabase X (Database (config s)) (world s))])"
  "write_calls (effects (snd (createInternalStorage X s))) = write_calls (effects s)"
  by (auto simp add: createInternalStorage_def prim_defs split: prod.splits option.splits)

lemma writer_batch_frame:
  "ready (writer_batch X batch s) =
     (ready s \<or> fst (CreateDatabase X (Database (config s)) (world s)) = None)"
  "config (writer_batch X batch s) = config s"
  "wg (writer_batch X batch s) = wg s"
  "create_calls (effects (writer_batch X batch s)) =
     create_calls (effects s) @
       (if ready s then [] else [fst (CreateDatabase X (Database (config s)) (world s))])"
  by (auto simp add: writer_batch_def createInternalStorage_def prim_defs
        split: prod.splits option.splits)

lemma writer_batch_write_calls:
  assumes "ready s"
  shows "write_calls (effects (writer_batch X batch s)) =
     write_calls (effects s) @
       [(batch, fst (WritePointsPrivileged X (Database (config s)) (RetentionPolicy (config s))
                       ConsistencyLevelAny batch (world s)))]"
  using assms
  by (auto simp add: writer_batch_def createInternalStorage_ready prim_defs
        split: prod.splits option.splits)

lemma writer_ready:
  "ready s \<Longrightarrow> ready (writer X wevs s) \<and>
     create_calls (effects (writer X wevs s)) = create_calls (effects s)"
proof (induction wevs arbitrary: s)
  case Nil
  then show ?case by simp
next
  case (Cons ev wevs)
  show ?case
  proof (cases ev)
    case WriterDone
    with Cons.prems show ?thesis by (simp add: wg_Done_def)
  next
    case (WriterBatch batch)
    have "ready (writer_batch X batch s)"
      using Cons.prems by (simp add: writer_batch_frame)
    from Cons.IH [OF this] show ?thesis
      using Cons.prems by (simp add: WriterBatch writer_batch_frame)
  qed
qed

lemma writer_create_calls:
  "\<exists>cs. create_calls (effects (writer X wevs s)) = create_calls (effects s) @ cs \<and>
        list_all (\<lambda>r. r \<noteq> None) (butlast cs) \<and> (ready s \<longrightarrow> cs = []) \<and>
        length cs \<le> length wevs"
proof (induction wevs arbitrary: s)
  case Nil
  show ?case by simp
next
  case (Cons ev wevs)
  show ?case
  proof (cases ev)
    case WriterDone
    show ?thesis by (simp add: WriterDone wg_Done_def)
  next
    case (WriterBatch batch)
    let ?s1 = "writer_batch X batch s"
    let ?r = "fst (CreateDatabase X (Database (config s)) (world s))"
    from Cons.IH [of ?s1] obtain cs where
      cs: "create_calls (effects (writer X wevs ?s1)) = create_calls (effects ?s1) @ cs"
        "list_all (\<lambda>r. r \<noteq> None) (butlast cs)" "ready ?s1 \<longrightarrow> cs = []"
        "length cs \<le> length wevs"
      by blast
    show ?thesis
    proof (cases "ready s")
      case True
      then have "cs = []" using cs(3) by (simp add: writer_batch_frame)
      with True cs(1) show ?thesis
        by (simp add: WriterBatch writer_batch_frame)
    next
      case False
      have eq: "create_calls (effects (writer X (ev # wevs) s)) =
                  create_calls (effects s) @ (?r # cs)"
        using False cs(1) by (simp add: WriterBatch writer_batch_frame)
      have "list_all (\<lambda>r. r \<noteq> None) (butlast (?r # cs))"
      proof (cases "?r = None")
        case True
        then have "cs = []" using cs(3) by (simp add: writer_batch_frame)
        then show ?thesis by simp
      next
        case False
        then show ?thesis using cs(2) by simp
      qed
      with eq False cs(4) show ?thesis
        by (intro exI [of _ "?r # cs"]) simp
    qed
  qed
qed

lemma serve_payload_frame:
  "ready (serve_payload payload buf s) = ready s"
  "wg (serve_payload payload buf s) = wg s"
  "config (serve_payload payload buf s) = config s"
  "world (serve_payload payload buf s) = world s"
  "PointsReceived (stats (serve_payload payload buf s)) = PointsReceived (stats s)"
  "PointsParseFail (stats (serve_payload payload buf s)) = PointsParseFail (stats s)"
  "BatchesTransmitted (stats (serve_payload payload buf s)) = BatchesTransmitted (stats s)"
  "PointsTransmitted (stats (serve_payload payload buf s)) = PointsTransmitted (stats s)"
  "BatchesTransmitFail (stats (serve_payload payload buf s)) = BatchesTransmitFail (stats s)"
  "create_calls (effects (serve_payload payload buf s)) = create_calls (effects s)"
  "write_calls (effects (serve_payload payload buf s)) = write_calls (effects s)"
  "batcherIn_sends (effects (serve_payload payload buf s)) = batcherIn_sends (effects s)"
  by (simp_all add: serve_payload_def prim_defs Let_def)

lemma serve_frame:
  "ready (serve sevs s) = ready s \<and> config (serve sevs s) = config s \<and>
   world (serve sevs s) = world s \<and>
   create_calls (effects (serve sevs s)) = create_calls (effects s) \<and>
   write_calls (effects (serve sevs s)) = write_calls (effects s) \<and>
   batcherIn_sends (effects (serve sevs s)) = batcherIn_sends (effects s)"
proof (induction sevs arbitrary: s)
  case Nil
  show ?case by simp
next
  case (Cons ev sevs)
  show ?case
    by (cases ev) (simp_all add: Cons.IH serve_payload_frame prim_defs)
qed

lemma parser_frame:
  "ready (parser X pevs s) = ready s \<and> config (parser X pevs s) = config s \<and>
   world (parser X pevs s) = world s \<and>
   create_calls (effects (parser X pevs s)) = create_calls (effects s) \<and>
   write_calls (effects (parser X pevs s)) = write_calls (effects s) \<and>
   parserChan_sends (effects (parser X pevs s)) = parserChan_sends (effects s)"
proof (induction pevs arbitrary: s)
  case Nil
  show ?case by simp
next
  case (Cons ev pevs)
  show ?case
    by (cases ev) (simp_all add: Cons.IH parser_buf_frame prim_defs)
qed

text \<open>The two ways in which \<open>RunWithReady\<close> returns.\<close>

lemma RunWithReady_cases:
  assumes "RunWithReady X sch s = Some (r, s')"
  shows "(r \<noteq> None \<and> ready s' = ready s \<and> stats s' = stats s \<and> wg s' = wg s \<and>
            config s' = config s \<and>
            (effects s' = effects s \<or> (\<exists>msg. effects s' = effects s @ [LogInfo msg]))) \<or>
         (r = None \<and>
            (\<exists>s0. s' = Logger_Info ''Service closed'' (run_stages X sch s0) \<and>
                  wg (run_stages X sch s0) = 0 \<and>
                  ready s0 = ready s \<and> stats s0 = stats s \<and> wg s0 = wg s + 3 \<and>
                  config s0 = config s \<and>
                  (\<exists>msg. effects s0 = effects s @
                     [BatcherStart, LogInfo msg, Go StageServe, Go StageParser,
                      Go StageWriter, CloseReady])))"
  using assms
  by (auto simp add: RunWithReady_def Let_def prim_defs
        split: if_splits prod.splits sum.splits option.splits)

text \<open>The concrete runs, evaluated.\<close>

lemma demo_run: "RunWithReady demo_collab demo_schedule demo_service = Some (None, demo_final)"
  by code_simp

lemma demo_ready_run:
  "RunWithReady demo_collab demo_schedule demo_ready_service = Some (None, demo_ready_final)"
  by code_simp

lemma writer_batch_launched:
  "launched (effects (writer_batch X batch s)) = launched (effects s)"
  "ready_closes (effects (writer_batch X batch s)) = ready_closes (effects s)"
  by (auto simp add: writer_batch_def createInternalStorage_def prim_defs
        split: prod.splits option.splits)

lemma serve_wg:
  "wg (serve sevs s) = wg s - (if ServeDone \<in> set sevs then 1 else 0) \<and>
   launched (effects (serve sevs s)) = launched (effects s) \<and>
   ready_closes (effects (serve sevs s)) = ready_closes (effects s)"
proof (induction sevs arbitrary: s)
  case Nil
  show ?case by simp
next
  case (Cons ev sevs)
  show ?case
    by (cases ev) (simp_all add: Cons.IH serve_payload_def prim_defs)
qed

lemma launched_map_Send [simp]: "launched (map SendBatcherIn ps) = []"
  by (induction ps) simp_all

lemma ready_closes_map_Send [simp]: "ready_closes (map SendBatcherIn ps) = 0"
  by (induction ps) simp_all

lemma parser_buf_launched:
  "launched (effects (parser_buf X buf now s)) = launched (effects s)"
  "ready_closes (effects (parser_buf X buf now s)) = ready_closes (effects s)"
  by (simp_all add: parser_buf_def foldl_send_batcher_In prim_defs
        split: prod.splits option.splits)

lemma parser_wg:
  "wg (parser X pevs s) = wg s - (if ParserDone \<in> set pevs then 1 else 0) \<and>
   launched (effects (parser X pevs s)) = launched (effects s) \<and>
   ready_closes (effects (parser X pevs s)) = ready_closes (effects s)"
proof (induction pevs arbitrary: s)
  case Nil
  show ?case by simp
next
  case (Cons ev pevs)
  show ?case
    by (cases ev) (simp_all add: Cons.IH parser_buf_frame parser_buf_launched wg_Done_def)
qed

lemma writer_wg:
  "wg (writer X wevs s) = wg s - (if WriterDone \<in> set wevs then 1 else 0) \<and>
   launched (effects (writer X wevs s)) = launched (effects s) \<and>
   ready_closes (effects (writer X wevs s)) = ready_closes (effects s)"
proof (induction wevs arbitrary: s)
  case Nil
  show ?case by simp
next
  case (Cons ev wevs)
  show ?case
    by (cases ev) (simp_all add: Cons.IH writer_batch_frame writer_batch_launched wg_Done_def)
qed

lemma run_stages_wg:
  "wg (run_stages X sch s) =
     wg s - (if ServeDone \<in> set (serve_selects sch) then 1 else 0)
          - (if ParserDone \<in> set (parser_selects sch) then 1 else 0)
          - (if WriterDone \<in> set (writer_selects sch) then 1 else 0)"
  "launched (effects (run_stages X sch s)) = launched (effects s)"
  "ready_closes (effects (run_stages X sch s)) = ready_closes (effects s)"
  by (simp_all add: run_stages_def serve_wg parser_wg writer_wg)


lemma createInternalStorage_None:
  assumes "createInternalStorage X s = (None, s1)"
  shows "ready s1" and "config s1 = config s" and "stats s1 = stats s" and "wg s1 = wg s"
    and "write_calls (effects s1) = write_calls (effects s)"
    and "if ready s then s1 = s
         else fst (CreateDatabase X (Database (config s)) (world s)) = None \<and>
              s1 = s\<lparr>world := snd (CreateDatabase X (Database (config s)) (world s)),
                     effects := effects s @ [CallCreateDatabase (Database (config s)) None],
                     ready := True\<rparr>"
  using assms
  by (auto simp add: createInternalStorage_def prim_defs split: if_splits prod.splits
        option.splits)

lemma writer_batch_created_write_ok:
  assumes "createInternalStorage X s = (None, s1)"
    and "WritePointsPrivileged X (Database (config s)) (RetentionPolicy (config s))
           ConsistencyLevelAny batch (world s1) = (None, w)"
  shows "writer_batch X batch s =
     s1\<lparr>world := w,
        effects := effects s1 @
          [CallWritePointsPrivileged (Database (config s)) (RetentionPolicy (config s))
             ConsistencyLevelAny batch None,
           AtomicAddInt64 RefBatchesTransmitted 1,
           AtomicAddInt64 RefPointsTransmitted (of_nat (length batch))],
        stats := (stats s)\<lparr>BatchesTransmitted := BatchesTransmitted (stats s) + 1,
          PointsTransmitted := PointsTransmitted (stats s) + of_nat (length batch)\<rparr>\<rparr>"
  using assms createInternalStorage_None(2,3) [OF assms(1)]
  by (simp add: writer_batch_def prim_defs)

lemma writer_batch_created_write_fail:
  assumes "createInternalStorage X s = (None, s1)"
    and "WritePointsPrivileged X (Database (config s)) (RetentionPolicy (config s))
           ConsistencyLevelAny batch (world s1) = (Some e, w)"
  shows "writer_batch X batch s =
     s1\<lparr>world := w,
        effects := effects s1 @
          [CallWritePointsPrivileged (Database (config s)) (RetentionPolicy (config s))
             ConsistencyLevelAny batch (Some e),
           LogInfo ''Failed to write point batch to database'',
           AtomicAddInt64 RefBatchesTransmitFail 1],
        stats := (stats s)\<lparr>BatchesTransmitFail := BatchesTransmitFail (stats s) + 1\<rparr>\<rparr>"
  using assms createInternalStorage_None(2,3) [OF assms(1)]
  by (simp add: writer_batch_def prim_defs)

lemma writer_batch_created_write_calls:
  assumes "createInternalStorage X s = (None, s1)"
  shows "write_calls (effects (writer_batch X batch s)) =
     write_calls (effects s) @
       [(batch, fst (WritePointsPrivileged X (Database (config s)) (RetentionPolicy (config s))
                       ConsistencyLevelAny batch (world s1)))]"
  using assms createInternalStorage_None(2,5) [OF assms]
  by (auto simp add: writer_batch_def prim_defs split: prod.splits option.splits)

text \<open>The stages step by step.\<close>

lemma run_steps_append:
  "run_steps X (sts @ sts') P =
     (case run_steps X sts P of None \<Rightarrow> None | Some P' \<Rightarrow> run_steps X sts' P')"
  by (induction sts arbitrary: P) (simp_all split: option.splits)

text \<open>
  A received payload that is copied while the relay channel has room: the two steps are the
  payload branch of \<open>serve\<close> on the buffer as it is at the copy.
\<close>

lemma serve_payload_steps:
  assumes "at_select P" and "payloadChan P = Some payload" and "err payload = None"
    and "length (parserChan_queue P) < parserChanLen"
  shows "run_steps X [ServeSelectPayload, ServeCopyAndSend] P =
     Some (P\<lparr>payloadChan := None, held_payload := None,
             parserChan_queue := parserChan_queue P @ [take (nbytes payload) (serve_buf P)],
             service := serve_payload payload (serve_buf P) (service P)\<rparr>)"
  using assms by (simp add: serve_payload_def Let_def)

text \<open>One datagram read and relayed while the relay channel has room.\<close>

lemma round_relayed:
  assumes "at_select P" and "payloadChan P = None"
    and "length (parserChan_queue P) < parserChanLen"
  shows "\<exists>P'. run_steps X [ReadFromUDP d None, ServeSelectPayload, ServeCopyAndSend] P = Some P' \<and>
           at_select P' \<and> payloadChan P' = None \<and>
           length (parserChan_queue P') = Suc (length (parserChan_queue P)) \<and>
           ctx_cancelled P' = ctx_cancelled P \<and> parser_returned P' = parser_returned P \<and>
           writer_returned P' = writer_returned P \<and> wg (service P') = wg (service P)"
  using assms by (simp add: at_select_def Let_def prim_defs)

lemma rounds_relayed:
  assumes "at_select P" and "payloadChan P = None"
    and "length (parserChan_queue P) + n \<le> parserChanLen"
  shows "\<exists>P'. run_steps X
             (concat (replicate n [ReadFromUDP d None, ServeSelectPayload, ServeCopyAndSend])) P =
             Some P' \<and>
           at_select P' \<and> payloadChan P' = None \<and>
           length (parserChan_queue P') = length (parserChan_queue P) + n \<and>
           ctx_cancelled P' = ctx_cancelled P \<and> parser_returned P' = parser_returned P \<and>
           writer_returned P' = writer_returned P \<and> wg (service P') = wg (service P)"
  using assms
proof (induction n arbitrary: P)
  case 0
  then show ?case by simp
next
  case (Suc n)
  from Suc.prems have room: "length (parserChan_queue P) < parserChanLen"
    by simp
  from round_relayed [OF Suc.prems(1,2) room, of X d] obtain P1 where
    P1: "run_steps X [ReadFromUDP d None, ServeSelectPayload, ServeCopyAndSend] P = Some P1"
      "at_select P1" "payloadChan P1 = None"
      "length (parserChan_queue P1) = Suc (length (parserChan_queue P))"
      "ctx_cancelled P1 = ctx_cancelled P" "parser_returned P1 = parser_returned P"
      "writer_returned P1 = writer_returned P" "wg (service P1) = wg (service P)"
    by blast
  have "length (parserChan_queue P1) + n \<le> parserChanLen"
    using Suc.prems(3) P1(4) by simp
  from Suc.IH [OF P1(2,3) this] obtain P' where
    P': "run_steps X
           (concat (replicate n [ReadFromUDP d None, ServeSelectPayload, ServeCopyAndSend])) P1 =
           Some P'"
      "at_select P'" "payloadChan P' = None"
      "length (parserChan_queue P') = length (parserChan_queue P1) + n"
      "ctx_cancelled P' = ctx_cancelled P1" "parser_returned P' = parser_returned P1"
      "writer_returned P' = writer_returned P1" "wg (service P') = wg (service P1)"
    by blast
  have "run_steps X
          (concat (replicate (Suc n)
             [ReadFromUDP d None, ServeSelectPayload, ServeCopyAndSend])) P = Some P'"
    using P1(1) P'(1) run_steps_append [of X
      "[ReadFromUDP d None, ServeSelectPayload, ServeCopyAndSend]"
      "concat (replicate n [ReadFromUDP d None, ServeSelectPayload, ServeCopyAndSend])" P]
    by simp
  with P1 P' show ?case
    by simp
qed

text \<open>One more datagram when the relay channel is full: the loop of \<open>serve\<close> is left in its send.\<close>

lemma round_blocked:
  assumes "at_select P" and "payloadChan P = None"
    and "length (parserChan_queue P) = parserChanLen"
  shows "\<exists>P'. run_steps X [ReadFromUDP d None, ServeSelectPayload, ServeCopyAndSend] P = Some P' \<and>
           pending_send P' \<noteq> None \<and> held_payload P' = None \<and> \<not> serve_returned P' \<and>
           payloadChan P' = None \<and> parserChan_queue P' = parserChan_queue P \<and>
           ctx_cancelled P' = ctx_cancelled P \<and> parser_returned P' = parser_returned P \<and>
           writer_returned P' = writer_returned P \<and> wg (service P') = wg (service P)"
  using assms by (simp add: at_select_def Let_def prim_defs)

lemma serve_stuck_step:
  assumes "serve_stuck P" and "step X st P = Some P'"
  shows "serve_stuck P'"
  using assms
  by (cases st)
    (auto simp add: serve_stuck_def at_select_def Let_def split: option.splits if_splits)

lemma serve_stuck_run:
  assumes "serve_stuck P" and "run_steps X sts P = Some P'"
  shows "serve_stuck P'"
  using assms
proof (induction sts arbitrary: P)
  case Nil
  then show ?case by simp
next
  case (Cons st sts)
  from Cons.prems(2) obtain P1 where
    P1: "step X st P = Some P1" "run_steps X sts P1 = Some P'"
    by (auto split: option.splits)
  from serve_stuck_step [OF Cons.prems(1) P1(1)] Cons.IH P1(2)
  show ?case by blast
qed



lemma demo_launched_run:
  "RunWithReady demo_collab sch demo_service =
     (if wg (run_stages demo_collab sch demo_launched) = 0
      then Some (None, Logger_Info ''Service closed'' (run_stages demo_collab sch demo_launched))
      else None)"
proof -
  have "demo_service\<lparr>addr := Some (UDPAddr '':8089''),
          conn := Some (UDPConn (UDPAddr '':8089'')), world := (0, 0),
          batcher := Some (NewPointBatcher 5 1 1000000000),
          effects := [BatcherStart, LogInfo ''Started listening on UDP'', Go StageServe,
            Go StageParser, Go StageWriter, CloseReady],
          wg := 3\<rparr> = demo_launched"
    by (simp add: demo_launched_def demo_defs)
  then show ?thesis
    by (simp add: RunWithReady_def Let_def prim_defs demo_defs demo_launched_def)
qed

lemma demo_race_run:
  "run_steps demo_collab demo_race_schedule (launch demo_launched) = Some demo_race_final"
  by (simp add: demo_race_final_def demo_race_schedule_def launch_def at_select_def Let_def
        MaxUDPPayload_def parserChanLen_def demo_launched_def demo_defs parser_buf_def
        foldl_send_batcher_In prim_defs)

lemma cancel_steps:
  assumes "\<not> parser_returned P" and "\<not> writer_returned P"
  shows "run_steps X [CtxCancel, ParserSelectDone, WriterSelectDone] P =
     Some (P\<lparr>ctx_cancelled := True, service := wg_Done (wg_Done (service P)),
             parser_returned := True, writer_returned := True\<rparr>)"
  using assms by simp

lemma demo_hang_run:
  "\<exists>P. run_steps demo_collab demo_hang_schedule (launch demo_launched) = Some P \<and>
        serve_stuck P \<and> ctx_cancelled P \<and> payloadChan P = None \<and>
        length (parserChan_queue P) = parserChanLen"
proof -
  let ?P0 = "launch demo_launched :: (nat, nat \<times> nat) Pipeline"
  have P0: "at_select ?P0" "payloadChan ?P0 = None" "length (parserChan_queue ?P0) = 0"
    "\<not> parser_returned ?P0" "\<not> writer_returned ?P0" "wg (service ?P0) = 3"
    by (simp_all add: launch_def at_select_def demo_launched_def)
  have "length (parserChan_queue ?P0) + parserChanLen \<le> parserChanLen"
    using P0(3) by simp
  from rounds_relayed [OF P0(1,2) this, of demo_collab "[5]"] obtain P1 where
    P1: "run_steps demo_collab (concat (replicate parserChanLen demo_round)) ?P0 = Some P1"
      "at_select P1" "payloadChan P1 = None" "length (parserChan_queue P1) = parserChanLen"
      "\<not> parser_returned P1" "\<not> writer_returned P1" "wg (service P1) = 3"
    using P0(3-6) by (auto simp add: demo_round_def)
  from round_blocked [OF P1(2,3,4), of demo_collab "[5]"] obtain P2 where
    P2: "run_steps demo_collab demo_round P1 = Some P2"
      "pending_send P2 \<noteq> None" "held_payload P2 = None" "\<not> serve_returned P2"
      "payloadChan P2 = None" "length (parserChan_queue P2) = parserChanLen"
      "\<not> parser_returned P2" "\<not> writer_returned P2" "wg (service P2) = 3"
    using P1(4-7) by (auto simp add: demo_round_def)
  let ?P3 = "P2\<lparr>ctx_cancelled := True, service := wg_Done (wg_Done (service P2)),
               parser_returned := True, writer_returned := True\<rparr>"
  have P3: "run_steps demo_collab [CtxCancel, ParserSelectDone, WriterSelectDone] P2 = Some ?P3"
    by (rule cancel_steps [OF P2(7,8)])
  have "run_steps demo_collab demo_hang_schedule ?P0 = Some ?P3"
    using P1(1) P2(1) P3
    by (simp add: demo_hang_schedule_def run_steps_append)
  moreover have "serve_stuck ?P3"
    using P2 by (simp add: serve_stuck_def wg_Done_def)
  moreover have "ctx_cancelled ?P3" "payloadChan ?P3 = None"
    "length (parserChan_queue ?P3) = parserChanLen"
    using P2 by simp_all
  ultimately show ?thesis
    by blast
qed

section \<open>The parser stage\<close>

text \<open>
  Claim C1. For every payload that the parser loop takes from the relay channel and that
  \<open>ParsePointsWithPrecision\<close> decodes without error into the records \<open>points\<close>, the loop
  sends all of \<open>points\<close>, in their decoded order, into the batcher's input channel, then adds
  \<open>length points\<close> to \<open>PointsReceived\<close> (a 64-bit addition; it is the exact integer sum when
  that sum is in the range of \<open>int64\<close>), and goes on with the next payload. A payload whose
  decoding returns an error leaves \<open>PointsReceived\<close> as it is.
\<close>

theorem parser_success_forwards_then_counts:
  "(ParsePointsWithPrecision X buf now (Precision (config s)) = (points, None) \<longrightarrow>
      parser X (ParserBuf buf now # rest) s =
        parser X rest
          (s\<lparr>effects := effects s @ map SendBatcherIn points @
                         [AtomicAddInt64 RefPointsReceived (of_nat (length points))],
            stats := (stats s)\<lparr>PointsReceived :=
                         PointsReceived (stats s) + of_nat (length points)\<rparr>\<rparr>) \<and>
      batcherIn_sends (effects (parser_buf X buf now s)) =
        batcherIn_sends (effects s) @ points \<and>
      PointsReceived (stats (parser_buf X buf now s)) =
        PointsReceived (stats s) + of_nat (length points) \<and>
      (- (2 ^ 63) \<le> sint (PointsReceived (stats s)) + int (length points) \<and>
       sint (PointsReceived (stats s)) + int (length points) < 2 ^ 63 \<longrightarrow>
         sint (PointsReceived (stats (parser_buf X buf now s))) =
           sint (PointsReceived (stats s)) + int (length points))) \<and>
   (ParsePointsWithPrecision X buf now (Precision (config s)) = (points, Some e) \<longrightarrow>
      PointsReceived (stats (parser_buf X buf now s)) = PointsReceived (stats s))"
proof (intro conjI impI)
  assume ok: "ParsePointsWithPrecision X buf now (Precision (config s)) = (points, None)"
  show "parser X (ParserBuf buf now # rest) s =
        parser X rest
          (s\<lparr>effects := effects s @ map SendBatcherIn points @
                         [AtomicAddInt64 RefPointsReceived (of_nat (length points))],
            stats := (stats s)\<lparr>PointsReceived :=
                         PointsReceived (stats s) + of_nat (length points)\<rparr>\<rparr>)"
    by (simp add: parser_buf_ok [OF ok])
  show "batcherIn_sends (effects (parser_buf X buf now s)) = batcherIn_sends (effects s) @ points"
    by (simp add: parser_buf_ok [OF ok])
  show cnt: "PointsReceived (stats (parser_buf X buf now s)) =
        PointsReceived (stats s) + of_nat (length points)"
    by (simp add: parser_buf_ok [OF ok])
  assume "- (2 ^ 63) \<le> sint (PointsReceived (stats s)) + int (length points) \<and>
       sint (PointsReceived (stats s)) + int (length points) < 2 ^ 63"
  then show "sint (PointsReceived (stats (parser_buf X buf now s))) =
           sint (PointsReceived (stats s)) + int (length points)"
    by (simp only: cnt int64_add_exact)
next
  assume "ParsePointsWithPrecision X buf now (Precision (config s)) = (points, Some e)"
  then show "PointsReceived (stats (parser_buf X buf now s)) = PointsReceived (stats s)"
    by (simp add: parser_buf_fail)
qed

theorem parser_success_forwards_then_counts_witness:
  "ParsePointsWithPrecision demo_collab [3, 7] 0 (Precision (config demo_service)) = ([3, 7], None) \<and>
   parser demo_collab [ParserBuf [3, 7] 0] demo_service =
     demo_service\<lparr>effects := [SendBatcherIn 3, SendBatcherIn 7, AtomicAddInt64 RefPointsReceived 2],
       stats := zero_Statistics\<lparr>PointsReceived := 2\<rparr>\<rparr> \<and>
   sint (PointsReceived (stats (parser_buf demo_collab [3, 7] 0 demo_service))) = 2 \<and>
   ParsePointsWithPrecision demo_collab [3, 0, 7] 0 (Precision (config demo_service)) =
     ([3], Some (Error ''unable to parse'')) \<and>
   PointsReceived (stats (parser_buf demo_collab [3, 0, 7] 0 demo_service)) = 0"
  using parser_success_forwards_then_counts
          [of demo_collab "[3, 7]" 0 demo_service "[3, 7]" "[]" "Error ''x''"]
        parser_success_forwards_then_counts
          [of demo_collab "[3, 0, 7]" 0 demo_service "[3]" "[]" "Error ''unable to parse''"]
  by (simp add: demo_defs)

text \<open>
  Claim C2. For every payload that \<open>ParsePointsWithPrecision\<close> rejects (it returns an
  error), the parser loop adds exactly 1 to \<open>PointsParseFail\<close>, leaves \<open>PointsReceived\<close> as
  it is, sends no record to the batcher's input, makes no write call, and goes on with the
  next payload.
\<close>

theorem parser_malformed_payload_counted_and_dropped:
  assumes "ParsePointsWithPrecision X buf now (Precision (config s)) = (points, Some e)"
  shows "parser X (ParserBuf buf now # rest) s =
           parser X rest
             (s\<lparr>effects := effects s @
                    [AtomicAddInt64 RefPointsParseFail 1, LogInfo ''Failed to parse points''],
               stats := (stats s)\<lparr>PointsParseFail := PointsParseFail (stats s) + 1\<rparr>\<rparr>) \<and>
         PointsParseFail (stats (parser_buf X buf now s)) = PointsParseFail (stats s) + 1 \<and>
         (sint (PointsParseFail (stats s)) + 1 < 2 ^ 63 \<longrightarrow>
            sint (PointsParseFail (stats (parser_buf X buf now s))) =
              sint (PointsParseFail (stats s)) + 1) \<and>
         PointsReceived (stats (parser_buf X buf now s)) = PointsReceived (stats s) \<and>
         batcherIn_sends (effects (parser_buf X buf now s)) = batcherIn_sends (effects s) \<and>
         write_calls (effects (parser_buf X buf now s)) = write_calls (effects s)"
proof -
  note step = parser_buf_fail [OF assms]
  have cnt: "PointsParseFail (stats (parser_buf X buf now s)) = PointsParseFail (stats s) + 1"
    by (simp add: step)
  have "sint (PointsParseFail (stats (parser_buf X buf now s))) =
          sint (PointsParseFail (stats s)) + 1"
    if "sint (PointsParseFail (stats s)) + 1 < 2 ^ 63"
  proof -
    have "- (2 ^ 63) \<le> sint (PointsParseFail (stats s))"
      using sint_ge [of "PointsParseFail (stats s)"] by simp
    then show ?thesis
      using that int64_add_exact [of "PointsParseFail (stats s)" 1] by (simp add: cnt)
  qed
  then show ?thesis
    by (simp add: step)
qed

theorem parser_malformed_payload_counted_and_dropped_witness:
  "ParsePointsWithPrecision demo_collab [3, 0, 7] 0 (Precision (config demo_service)) =
     ([3], Some (Error ''unable to parse'')) \<and>
   parser demo_collab [ParserBuf [3, 0, 7] 0, ParserBuf [5] 1] demo_service =
     demo_service\<lparr>effects :=
         [AtomicAddInt64 RefPointsParseFail 1, LogInfo ''Failed to parse points'',
          SendBatcherIn 5, AtomicAddInt64 RefPointsReceived 1],
       stats := zero_Statistics\<lparr>PointsParseFail := 1, PointsReceived := 1\<rparr>\<rparr> \<and>
   sint (PointsParseFail (stats (parser_buf demo_collab [3, 0, 7] 0 demo_service))) = 1 \<and>
   write_calls (effects (parser_buf demo_collab [3, 0, 7] 0 demo_service)) = []"
  using parser_malformed_payload_counted_and_dropped
          [of demo_collab "[3, 0, 7]" 0 demo_service "[3]" "Error ''unable to parse''"
              "[ParserBuf [5] 1]"]
  by (simp add: demo_defs parser_buf_def prim_defs)

section \<open>The listener stage\<close>

text \<open>
  Claim C10. On every successful socket read the serve loop adds the datagram's byte count
  \<open>nbytes\<close> to \<open>BytesReceived\<close>, before it relays the payload to the parser; the parser
  never changes \<open>BytesReceived\<close>, so a payload that later fails to decode has still
  contributed its full byte count. A failed read leaves \<open>BytesReceived\<close> as it is.
\<close>

theorem bytes_counted_on_every_successful_read:
  "(err payload = None \<longrightarrow>
      serve (ServePayload payload buf # rest) s =
        serve rest
          (s\<lparr>effects := effects s @
                 [AtomicAddInt64 RefBytesReceived (of_nat (nbytes payload)),
                  SendParserChan (take (nbytes payload) buf)],
            stats := (stats s)\<lparr>BytesReceived :=
                 BytesReceived (stats s) + of_nat (nbytes payload)\<rparr>\<rparr>) \<and>
      BytesReceived (stats (serve_payload payload buf s)) =
        BytesReceived (stats s) + of_nat (nbytes payload) \<and>
      (- (2 ^ 63) \<le> sint (BytesReceived (stats s)) + int (nbytes payload) \<and>
       sint (BytesReceived (stats s)) + int (nbytes payload) < 2 ^ 63 \<longrightarrow>
         sint (BytesReceived (stats (serve_payload payload buf s))) =
           sint (BytesReceived (stats s)) + int (nbytes payload)) \<and>
      BytesReceived (stats (parser_buf X (take (nbytes payload) buf) now
                              (serve_payload payload buf s))) =
        BytesReceived (stats s) + of_nat (nbytes payload)) \<and>
   (err payload \<noteq> None \<longrightarrow>
      BytesReceived (stats (serve_payload payload buf s)) = BytesReceived (stats s)) \<and>
   BytesReceived (stats (parser X pevs s)) = BytesReceived (stats s)"
proof (intro conjI impI)
  assume ok: "err payload = None"
  show "serve (ServePayload payload buf # rest) s =
        serve rest
          (s\<lparr>effects := effects s @
                 [AtomicAddInt64 RefBytesReceived (of_nat (nbytes payload)),
                  SendParserChan (take (nbytes payload) buf)],
            stats := (stats s)\<lparr>BytesReceived :=
                 BytesReceived (stats s) + of_nat (nbytes payload)\<rparr>\<rparr>)"
    by (simp add: serve_payload_ok [OF ok])
  show cnt: "BytesReceived (stats (serve_payload payload buf s)) =
        BytesReceived (stats s) + of_nat (nbytes payload)"
    by (simp add: serve_payload_ok [OF ok])
  show "BytesReceived (stats (parser_buf X (take (nbytes payload) buf) now
                              (serve_payload payload buf s))) =
        BytesReceived (stats s) + of_nat (nbytes payload)"
    by (simp only: parser_buf_frame cnt)
  assume "- (2 ^ 63) \<le> sint (BytesReceived (stats s)) + int (nbytes payload) \<and>
       sint (BytesReceived (stats s)) + int (nbytes payload) < 2 ^ 63"
  then show "sint (BytesReceived (stats (serve_payload payload buf s))) =
           sint (BytesReceived (stats s)) + int (nbytes payload)"
    by (simp only: cnt int64_add_exact)
next
  assume "err payload \<noteq> None"
  then show "BytesReceived (stats (serve_payload payload buf s)) = BytesReceived (stats s)"
    by (auto simp add: serve_payload_fail)
next
  show "BytesReceived (stats (parser X pevs s)) = BytesReceived (stats s)"
    by (rule parser_BytesReceived)
qed

theorem bytes_counted_on_every_successful_read_witness:
  "err \<lparr>nbytes = 3, err = None\<rparr> = None \<and>
   serve [ServePayload \<lparr>nbytes = 3, err = None\<rparr> [3, 0, 7, 9]] demo_service =
     demo_service\<lparr>effects := [AtomicAddInt64 RefBytesReceived 3, SendParserChan [3, 0, 7]],
       stats := zero_Statistics\<lparr>BytesReceived := 3\<rparr>\<rparr> \<and>
   sint (BytesReceived (stats (serve_payload \<lparr>nbytes = 3, err = None\<rparr> [3, 0, 7, 9]
      demo_service))) = 3 \<and>
   fst (ParsePointsWithPrecision demo_collab [3, 0, 7] 0 (Precision (config demo_service))) = [3] \<and>
   snd (ParsePointsWithPrecision demo_collab [3, 0, 7] 0 (Precision (config demo_service))) \<noteq> None \<and>
   BytesReceived (stats (parser_buf demo_collab [3, 0, 7] 0
      (serve_payload \<lparr>nbytes = 3, err = None\<rparr> [3, 0, 7, 9] demo_service))) = 3 \<and>
   err \<lparr>nbytes = 0, err = Some (Error ''read failed'')\<rparr> \<noteq> None \<and>
   BytesReceived (stats (serve_payload \<lparr>nbytes = 0, err = Some (Error ''read failed'')\<rparr>
      [3, 0, 7, 9] demo_service)) = 0"
  using bytes_counted_on_every_successful_read
          [of "\<lparr>nbytes = 3, err = None\<rparr>" "[3, 0, 7, 9]" "[]" demo_service demo_collab 0 "[]"]
        bytes_counted_on_every_successful_read
          [of "\<lparr>nbytes = 0, err = Some (Error ''read failed'')\<rparr>" "[3, 0, 7, 9]" "[]"
              demo_service demo_collab 0 "[]"]
  by (simp add: demo_defs serve_payload_def parser_buf_def prim_defs)

section \<open>The delivery stage\<close>

text \<open>
  Claim C3. For every batch that the writer loop writes, that is every batch for which
  \<open>createInternalStorage\<close> returns no error (\<open>ready\<close> held already, or this very call of
  \<open>CreateDatabase\<close> has just succeeded and set it; \<open>s1\<close> is the service after it): if
  \<open>WritePointsPrivileged\<close> succeeds, \<open>BatchesTransmitted\<close> grows by 1 and \<open>PointsTransmitted\<close>
  by the length of the batch; if it fails, \<open>BatchesTransmitFail\<close> grows by 1 and the batch is
  dropped (one write call for it, no second one). In both cases \<open>ready\<close> holds afterwards,
  the loop goes on, and the next batch is written by one call of its own.
\<close>

theorem writer_counts_each_write_outcome:
  assumes "createInternalStorage X s = (None, s1)"
  shows
    "(if ready s then s1 = s
      else fst (CreateDatabase X (Database (config s)) (world s)) = None \<and>
           s1 = s\<lparr>world := snd (CreateDatabase X (Database (config s)) (world s)),
                  effects := effects s @ [CallCreateDatabase (Database (config s)) None],
                  ready := True\<rparr>) \<and>
     (WritePointsPrivileged X (Database (config s)) (RetentionPolicy (config s))
        ConsistencyLevelAny batch (world s1) = (None, w) \<longrightarrow>
        writer_batch X batch s =
          s1\<lparr>world := w,
             effects := effects s1 @
               [CallWritePointsPrivileged (Database (config s)) (RetentionPolicy (config s))
                  ConsistencyLevelAny batch None,
                AtomicAddInt64 RefBatchesTransmitted 1,
                AtomicAddInt64 RefPointsTransmitted (of_nat (length batch))],
             stats := (stats s)\<lparr>BatchesTransmitted := BatchesTransmitted (stats s) + 1,
               PointsTransmitted := PointsTransmitted (stats s) + of_nat (length batch)\<rparr>\<rparr> \<and>
        (sint (BatchesTransmitted (stats s)) + 1 < 2 ^ 63 \<longrightarrow>
           sint (BatchesTransmitted (stats (writer_batch X batch s))) =
             sint (BatchesTransmitted (stats s)) + 1) \<and>
        (- (2 ^ 63) \<le> sint (PointsTransmitted (stats s)) + int (length batch) \<and>
         sint (PointsTransmitted (stats s)) + int (length batch) < 2 ^ 63 \<longrightarrow>
           sint (PointsTransmitted (stats (writer_batch X batch s))) =
             sint (PointsTransmitted (stats s)) + int (length batch))) \<and>
     (WritePointsPrivileged X (Database (config s)) (RetentionPolicy (config s))
        ConsistencyLevelAny batch (world s1) = (Some e, w) \<longrightarrow>
        writer_batch X batch s =
          s1\<lparr>world := w,
             effects := effects s1 @
               [CallWritePointsPrivileged (Database (config s)) (RetentionPolicy (config s))
                  ConsistencyLevelAny batch (Some e),
                LogInfo ''Failed to write point batch to database'',
                AtomicAddInt64 RefBatchesTransmitFail 1],
             stats := (stats s)\<lparr>BatchesTransmitFail := BatchesTransmitFail (stats s) + 1\<rparr>\<rparr> \<and>
        (sint (BatchesTransmitFail (stats s)) + 1 < 2 ^ 63 \<longrightarrow>
           sint (BatchesTransmitFail (stats (writer_batch X batch s))) =
             sint (BatchesTransmitFail (stats s)) + 1)) \<and>
     ready (writer_batch X batch s) \<and>
     writer X (WriterBatch batch # WriterBatch batch2 # rest) s =
       writer X rest (writer_batch X batch2 (writer_batch X batch s)) \<and>
     write_calls (effects (writer_batch X batch2 (writer_batch X batch s))) =
       write_calls (effects s) @
         [(batch, fst (WritePointsPrivileged X (Database (config s)) (RetentionPolicy (config s))
                         ConsistencyLevelAny batch (world s1))),
          (batch2, fst (WritePointsPrivileged X (Database (config s))
                          (RetentionPolicy (config s)) ConsistencyLevelAny batch2
                          (world (writer_batch X batch s))))]"
proof -
  have one: "sint (x + 1) = sint x + 1" if "sint x + 1 < 2 ^ 63" for x :: int64
  proof -
    have "- (2 ^ 63) \<le> sint x"
      using sint_ge [of x] by simp
    then show ?thesis
      using that int64_add_exact [of x 1] by simp
  qed
  note s1 = createInternalStorage_None [OF assms]
  have r1: "ready (writer_batch X batch s)"
    using s1(1) s1(6) by (auto simp add: writer_batch_frame split: if_splits)
  have ok: "sint (BatchesTransmitted (stats (writer_batch X batch s))) =
             sint (BatchesTransmitted (stats s)) + 1"
    if "WritePointsPrivileged X (Database (config s)) (RetentionPolicy (config s))
        ConsistencyLevelAny batch (world s1) = (None, w)"
      and "sint (BatchesTransmitted (stats s)) + 1 < 2 ^ 63"
    using that one by (simp add: writer_batch_created_write_ok [OF assms])
  have okp: "sint (PointsTransmitted (stats (writer_batch X batch s))) =
             sint (PointsTransmitted (stats s)) + int (length batch)"
    if "WritePointsPrivileged X (Database (config s)) (RetentionPolicy (config s))
        ConsistencyLevelAny batch (world s1) = (None, w)"
      and "- (2 ^ 63) \<le> sint (PointsTransmitted (stats s)) + int (length batch)"
      and "sint (PointsTransmitted (stats s)) + int (length batch) < 2 ^ 63"
    using that int64_add_exact by (simp add: writer_batch_created_write_ok [OF assms])
  have bad: "sint (BatchesTransmitFail (stats (writer_batch X batch s))) =
             sint (BatchesTransmitFail (stats s)) + 1"
    if "WritePointsPrivileged X (Database (config s)) (RetentionPolicy (config s))
        ConsistencyLevelAny batch (world s1) = (Some e, w)"
      and "sint (BatchesTransmitFail (stats s)) + 1 < 2 ^ 63"
    using that one by (simp add: writer_batch_created_write_fail [OF assms])
  have calls: "write_calls (effects (writer_batch X batch2 (writer_batch X batch s))) =
       write_calls (effects s) @
         [(batch, fst (WritePointsPrivileged X (Database (config s)) (RetentionPolicy (config s))
                         ConsistencyLevelAny batch (world s1))),
          (batch2, fst (WritePointsPrivileged X (Database (config s))
                          (RetentionPolicy (config s)) ConsistencyLevelAny batch2
                          (world (writer_batch X batch s))))]"
    by (simp add: writer_batch_write_calls [OF r1] writer_batch_created_write_calls [OF assms]
          writer_batch_frame)
  have ok_eq: "writer_batch X batch s =
          s1\<lparr>world := w,
             effects := effects s1 @
               [CallWritePointsPrivileged (Database (config s)) (RetentionPolicy (config s))
                  ConsistencyLevelAny batch None,
                AtomicAddInt64 RefBatchesTransmitted 1,
                AtomicAddInt64 RefPointsTransmitted (of_nat (length batch))],
             stats := (stats s)\<lparr>BatchesTransmitted := BatchesTransmitted (stats s) + 1,
               PointsTransmitted := PointsTransmitted (stats s) + of_nat (length batch)\<rparr>\<rparr>"
    if "WritePointsPrivileged X (Database (config s)) (RetentionPolicy (config s))
        ConsistencyLevelAny batch (world s1) = (None, w)"
    using that by (rule writer_batch_created_write_ok [OF assms])
  have bad_eq: "writer_batch X batch s =
          s1\<lparr>world := w,
             effects := effects s1 @
               [CallWritePointsPrivileged (Database (config s)) (RetentionPolicy (config s))
                  ConsistencyLevelAny batch (Some e),
                LogInfo ''Failed to write point batch to database'',
                AtomicAddInt64 RefBatchesTransmitFail 1],
             stats := (stats s)\<lparr>BatchesTransmitFail := BatchesTransmitFail (stats s) + 1\<rparr>\<rparr>"
    if "WritePointsPrivileged X (Database (config s)) (RetentionPolicy (config s))
        ConsistencyLevelAny batch (world s1) = (Some e, w)"
    using that by (rule writer_batch_created_write_fail [OF assms])
  show ?thesis
    using s1(6) r1 ok okp bad calls ok_eq bad_eq
    by (intro conjI impI) (simp_all only: writer.simps)
qed

theorem writer_counts_each_write_outcome_witness:
  "createInternalStorage demo_collab demo_ready_service = (None, demo_ready_service) \<and>
   WritePointsPrivileged demo_collab (Database (config demo_ready_service))
     (RetentionPolicy (config demo_ready_service)) ConsistencyLevelAny [1, 2]
     (world demo_ready_service) = (Some (Error ''write failed''), (0, 1)) \<and>
   writer_batch demo_collab [1, 2] demo_ready_service =
     demo_ready_service\<lparr>world := (0, 1),
       effects :=
         [CallWritePointsPrivileged ''udp'' ''autogen'' ConsistencyLevelAny [1, 2]
            (Some (Error ''write failed'')),
          LogInfo ''Failed to write point batch to database'',
          AtomicAddInt64 RefBatchesTransmitFail 1],
       stats := zero_Statistics\<lparr>BatchesTransmitFail := 1\<rparr>\<rparr> \<and>
   sint (BatchesTransmitFail (stats (writer_batch demo_collab [1, 2] demo_ready_service))) = 1 \<and>
   \<not> ready (demo_service\<lparr>world := (1, 1)\<rparr>) \<and>
   createInternalStorage demo_collab (demo_service\<lparr>world := (1, 1)\<rparr>) =
     (None, demo_service\<lparr>world := (2, 1), effects := [CallCreateDatabase ''udp'' None],
              ready := True\<rparr>) \<and>
   WritePointsPrivileged demo_collab (Database (config demo_service))
     (RetentionPolicy (config demo_service)) ConsistencyLevelAny [3, 4, 5] (2, 1) =
       (None, (2, 2)) \<and>
   writer_batch demo_collab [3, 4, 5] (demo_service\<lparr>world := (1, 1)\<rparr>) =
     demo_service\<lparr>ready := True, world := (2, 2),
       effects :=
         [CallCreateDatabase ''udp'' None,
          CallWritePointsPrivileged ''udp'' ''autogen'' ConsistencyLevelAny [3, 4, 5] None,
          AtomicAddInt64 RefBatchesTransmitted 1,
          AtomicAddInt64 RefPointsTransmitted 3],
       stats := zero_Statistics\<lparr>BatchesTransmitted := 1, PointsTransmitted := 3\<rparr>\<rparr> \<and>
   sint (PointsTransmitted (stats (writer_batch demo_collab [3, 4, 5]
      (demo_service\<lparr>world := (1, 1)\<rparr>)))) = 3"
proof -
  have c1: "createInternalStorage demo_collab demo_ready_service = (None, demo_ready_service)"
    by (simp add: createInternalStorage_def demo_ready_service_def)
  have w1: "WritePointsPrivileged demo_collab (Database (config demo_ready_service))
     (RetentionPolicy (config demo_ready_service)) ConsistencyLevelAny [1, 2]
     (world demo_ready_service) = (Some (Error ''write failed''), (0, 1))"
    by (simp add: demo_ready_service_def demo_defs)
  have v1: "config demo_ready_service = demo_config" "stats demo_ready_service = zero_Statistics"
    "effects demo_ready_service = []"
    by (simp_all add: demo_ready_service_def demo_service_def NewService_def)
  have c2: "createInternalStorage demo_collab (demo_service\<lparr>world := (1, 1)\<rparr>) =
     (None, demo_service\<lparr>world := (2, 1), effects := [CallCreateDatabase ''udp'' None],
              ready := True\<rparr>)"
    by (simp add: createInternalStorage_def demo_defs prim_defs)
  have n2: "\<not> ready (demo_service\<lparr>world := (1, 1)\<rparr>)"
    by (simp add: demo_defs)
  have w2: "WritePointsPrivileged demo_collab (Database (config demo_service))
     (RetentionPolicy (config demo_service)) ConsistencyLevelAny [3, 4, 5] (2, 1) =
       (None, (2, 2))"
    by (simp add: demo_defs)
  have v2: "config demo_service = demo_config" "stats demo_service = zero_Statistics"
    by (simp_all add: demo_service_def NewService_def)
  have d: "Database demo_config = ''udp''" "RetentionPolicy demo_config = ''autogen''"
    by (simp_all add: demo_config_def)
  have z: "BatchesTransmitFail zero_Statistics = 0" "BatchesTransmitted zero_Statistics = 0"
    "PointsTransmitted zero_Statistics = 0"
    by (simp_all add: zero_Statistics_def)
  note t1 = writer_counts_each_write_outcome
          [of demo_collab demo_ready_service demo_ready_service "[1, 2]" "(0, 1)"
              "Error ''write failed''" "[]" "[]", OF c1]
  note t2 = writer_counts_each_write_outcome
          [of demo_collab "demo_service\<lparr>world := (1, 1)\<rparr>"
              "demo_service\<lparr>world := (2, 1), effects := [CallCreateDatabase ''udp'' None],
                 ready := True\<rparr>" "[3, 4, 5]" "(2, 2)" "Error ''write failed''" "[]" "[]",
           OF c2]
  have e1: "writer_batch demo_collab [1, 2] demo_ready_service =
     demo_ready_service\<lparr>world := (0, 1),
       effects :=
         [CallWritePointsPrivileged ''udp'' ''autogen'' ConsistencyLevelAny [1, 2]
            (Some (Error ''write failed'')),
          LogInfo ''Failed to write point batch to database'',
          AtomicAddInt64 RefBatchesTransmitFail 1],
       stats := zero_Statistics\<lparr>BatchesTransmitFail := 1\<rparr>\<rparr>"
    and i1: "sint (BatchesTransmitFail (stats (writer_batch demo_collab [1, 2]
               demo_ready_service))) = 1"
    using t1 w1 by (simp_all add: v1 d z)
  have e2: "writer_batch demo_collab [3, 4, 5] (demo_service\<lparr>world := (1, 1)\<rparr>) =
     demo_service\<lparr>ready := True, world := (2, 2),
       effects :=
         [CallCreateDatabase ''udp'' None,
          CallWritePointsPrivileged ''udp'' ''autogen'' ConsistencyLevelAny [3, 4, 5] None,
          AtomicAddInt64 RefBatchesTransmitted 1,
          AtomicAddInt64 RefPointsTransmitted 3],
       stats := zero_Statistics\<lparr>BatchesTransmitted := 1, PointsTransmitted := 3\<rparr>\<rparr>"
    and i2: "sint (PointsTransmitted (stats (writer_batch demo_collab [3, 4, 5]
               (demo_service\<lparr>world := (1, 1)\<rparr>)))) = 3"
    using t2 w2 by (simp_all add: v2 d z)
  show ?thesis
    using c1 w1 e1 i1 n2 c2 w2 e2 i2 by blast
qed

text \<open>
  Claim C4. For every batch for which the \<open>CreateDatabase\<close> call fails, the writer loop
  makes no write call, drops the batch, and changes none of the counters (in particular not
  \<open>BatchesTransmitted\<close>, \<open>PointsTransmitted\<close>, \<open>BatchesTransmitFail\<close>); \<open>ready\<close> stays false,
  and the next batch calls \<open>CreateDatabase\<close> again.
\<close>

theorem failed_creation_discards_batch:
  assumes "\<not> ready s"
    and "CreateDatabase X (Database (config s)) (world s) = (Some e, w)"
  shows
    "writer X (WriterBatch batch # rest) s =
       writer X rest
         (s\<lparr>world := w,
            effects := effects s @
              [CallCreateDatabase (Database (config s)) (Some e),
               LogInfo ''Required database does not yet exist'']\<rparr>) \<and>
     stats (writer_batch X batch s) = stats s \<and>
     write_calls (effects (writer_batch X batch s)) = write_calls (effects s) \<and>
     \<not> ready (writer_batch X batch s) \<and>
     create_calls (effects (writer_batch X batch2 (writer_batch X batch s))) =
       create_calls (effects s) @ [Some e, fst (CreateDatabase X (Database (config s)) w)]"
proof -
  note step = writer_batch_create_fail [OF assms]
  have "create_calls (effects (writer_batch X batch2 (writer_batch X batch s))) =
       create_calls (effects s) @ [Some e, fst (CreateDatabase X (Database (config s)) w)]"
    using assms by (simp add: step writer_batch_frame)
  then show ?thesis
    using assms(1) by (simp add: step)
qed

theorem failed_creation_discards_batch_witness:
  "\<not> ready demo_service \<and>
   CreateDatabase demo_collab (Database (config demo_service)) (world demo_service) =
     (Some (Error ''create failed''), (1, 0)) \<and>
   writer demo_collab [WriterBatch [1, 2]] demo_service =
     demo_service\<lparr>world := (1, 0),
       effects := [CallCreateDatabase ''udp'' (Some (Error ''create failed'')),
                   LogInfo ''Required database does not yet exist'']\<rparr> \<and>
   stats (writer_batch demo_collab [1, 2] demo_service) = zero_Statistics \<and>
   create_calls (effects (writer_batch demo_collab [3] (writer_batch demo_collab [1, 2]
      demo_service))) = [Some (Error ''create failed''), None]"
  using failed_creation_discards_batch
          [of demo_service demo_collab "Error ''create failed''" "(1, 0)" "[1, 2]" "[]" "[3]"]
  by (simp add: demo_defs writer_batch_def createInternalStorage_def prim_defs)


text \<open>
  Claim C5. \<open>ready\<close> is monotone: a new service has it false; \<open>createInternalStorage\<close> (and
  with it a delivery attempt) leaves it true when it was true and otherwise sets it exactly
  when the \<open>CreateDatabase\<close> call succeeds, so a failed call leaves it false; the listener and
  the parser never write it; once it is true it stays true through any run of the writer loop
  and of the whole service, and no \<open>CreateDatabase\<close> call is made any more.
\<close>

theorem ready_is_monotone:
  fixes X :: "('p, 'w) Collaborators"
  shows
  "\<not> ready (NewService WithDefaults c w0 :: ('p, 'w) Service) \<and>
   ready (snd (createInternalStorage X s)) =
     (ready s \<or> fst (CreateDatabase X (Database (config s)) (world s)) = None) \<and>
   ready (writer_batch X batch s) =
     (ready s \<or> fst (CreateDatabase X (Database (config s)) (world s)) = None) \<and>
   ready (serve sevs s) = ready s \<and>
   ready (parser X pevs s) = ready s \<and>
   (ready s \<longrightarrow>
      ready (writer X wevs s) \<and>
      create_calls (effects (writer X wevs s)) = create_calls (effects s)) \<and>
   (ready s \<and> RunWithReady X sch s = Some (r, s') \<longrightarrow>
      ready s' \<and> create_calls (effects s') = create_calls (effects s))"
proof (intro conjI impI)
  show "\<not> ready (NewService WithDefaults c w0 :: ('p, 'w) Service)"
    by (simp add: NewService_def)
  show "ready (snd (createInternalStorage X s)) =
     (ready s \<or> fst (CreateDatabase X (Database (config s)) (world s)) = None)"
    by (rule createInternalStorage_frame)
  show "ready (writer_batch X batch s) =
     (ready s \<or> fst (CreateDatabase X (Database (config s)) (world s)) = None)"
    by (rule writer_batch_frame)
  show "ready (serve sevs s) = ready s"
    by (simp add: serve_frame)
  show "ready (parser X pevs s) = ready s"
    by (simp add: parser_frame)
next
  assume "ready s"
  then show "ready (writer X wevs s)"
    and "create_calls (effects (writer X wevs s)) = create_calls (effects s)"
    by (simp_all add: writer_ready)
next
  assume a: "ready s \<and> RunWithReady X sch s = Some (r, s')"
  then have run: "RunWithReady X sch s = Some (r, s')" and rdy: "ready s"
    by simp_all
  from RunWithReady_cases [OF run]
  show "ready s'" and "create_calls (effects s') = create_calls (effects s)"
    using rdy by (auto simp add: run_stages_def serve_frame parser_frame writer_ready prim_defs)
qed

theorem ready_is_monotone_witness:
  "ready demo_ready_service \<and>
   RunWithReady demo_collab demo_schedule demo_ready_service = Some (None, demo_ready_final) \<and>
   ready demo_ready_final \<and>
   create_calls (effects demo_ready_final) = [] \<and>
   ready (writer demo_collab (writer_selects demo_schedule) demo_ready_service) \<and>
   create_calls (effects (writer demo_collab (writer_selects demo_schedule)
      demo_ready_service)) = [] \<and>
   \<not> ready demo_service \<and>
   fst (CreateDatabase demo_collab (Database (config demo_service)) (world demo_service)) =
     Some (Error ''create failed'') \<and>
   \<not> ready (writer_batch demo_collab [5] demo_service) \<and>
   fst (CreateDatabase demo_collab (Database (config demo_service)) (1, 0)) = None \<and>
   ready (writer_batch demo_collab [6] (demo_service\<lparr>world := (1, 0)\<rparr>))"
proof -
  have rdy: "ready demo_ready_service" and eff: "create_calls (effects demo_ready_service) = []"
    by (simp_all add: demo_ready_service_def demo_defs)
  have new: "\<not> ready demo_service"
    and c1: "fst (CreateDatabase demo_collab (Database (config demo_service))
               (world demo_service)) = Some (Error ''create failed'')"
    and c2: "fst (CreateDatabase demo_collab (Database (config demo_service)) (1, 0)) = None"
    and c3: "fst (CreateDatabase demo_collab
               (Database (config (demo_service\<lparr>world := (1, 0)\<rparr>)))
               (world (demo_service\<lparr>world := (1, 0)\<rparr>))) = None"
    by (simp_all add: demo_defs)
  have run: "ready demo_ready_final \<and> create_calls (effects demo_ready_final) = [] \<and>
      ready (writer demo_collab (writer_selects demo_schedule) demo_ready_service) \<and>
      create_calls (effects (writer demo_collab (writer_selects demo_schedule)
        demo_ready_service)) = []"
    using ready_is_monotone
         [of "\<lambda>c. c" demo_config "(0, 0)" demo_collab demo_ready_service "[]" "[]" "[]"
             "writer_selects demo_schedule" demo_schedule None demo_ready_final]
      rdy eff demo_ready_run by simp
  have fail: "\<not> ready (writer_batch demo_collab [5] demo_service)"
    using ready_is_monotone
         [of "\<lambda>c. c" demo_config "(0, 0)" demo_collab demo_service "[5]"]
      new c1 by simp
  have ok: "ready (writer_batch demo_collab [6] (demo_service\<lparr>world := (1, 0)\<rparr>))"
    using ready_is_monotone
         [of "\<lambda>c. c" demo_config "(0, 0)" demo_collab "demo_service\<lparr>world := (1, 0)\<rparr>"
             "[6]"]
      c3 by simp
  show ?thesis
    using rdy demo_ready_run run new c1 fail c2 ok by blast
qed

text \<open>
  Claim C6, as stated: over any run of one service instance \<open>CreateDatabase\<close> is invoked at
  most once in total. It fails on the run \<open>demo_schedule\<close> of the new service, where the
  first call fails and the second batch makes a second call.
\<close>

theorem creation_invoked_twice_in_one_run:
  "RunWithReady demo_collab demo_schedule demo_service = Some (None, demo_final) \<and>
   create_calls (effects demo_final) = [Some (Error ''create failed''), None] \<and>
   \<not> length (create_calls (effects demo_final)) \<le> 1"
proof -
  have "RunWithReady demo_collab demo_schedule demo_service = Some (None, demo_final)"
    by code_simp
  moreover have "create_calls (effects demo_final) = [Some (Error ''create failed''), None]"
    by (simp add: demo_final_def)
  ultimately show ?thesis
    by simp
qed

text \<open>
  Claim C6, amended: over any run of one service instance \<open>CreateDatabase\<close> is invoked at
  most once per arriving batch and only while \<open>ready\<close> is false; every invocation but the
  last one has failed, so it succeeds at most once and is not invoked again after it has
  succeeded.
\<close>

theorem creation_succeeds_at_most_once:
  "(\<exists>cs. create_calls (effects (writer X wevs s)) = create_calls (effects s) @ cs \<and>
         list_all (\<lambda>r. r \<noteq> None) (butlast cs) \<and> (ready s \<longrightarrow> cs = []) \<and>
         length cs \<le> length wevs) \<and>
   (RunWithReady X sch s = Some (r, s') \<longrightarrow>
      (\<exists>cs. create_calls (effects s') = create_calls (effects s) @ cs \<and>
            list_all (\<lambda>r. r \<noteq> None) (butlast cs) \<and> (ready s \<longrightarrow> cs = []) \<and>
            length cs \<le> length (writer_selects sch)))"
proof (intro conjI impI)
  show "\<exists>cs. create_calls (effects (writer X wevs s)) = create_calls (effects s) @ cs \<and>
         list_all (\<lambda>r. r \<noteq> None) (butlast cs) \<and> (ready s \<longrightarrow> cs = []) \<and>
         length cs \<le> length wevs"
    by (rule writer_create_calls)
next
  assume run: "RunWithReady X sch s = Some (r, s')"
  from RunWithReady_cases [OF run]
  show "\<exists>cs. create_calls (effects s') = create_calls (effects s) @ cs \<and>
            list_all (\<lambda>r. r \<noteq> None) (butlast cs) \<and> (ready s \<longrightarrow> cs = []) \<and>
            length cs \<le> length (writer_selects sch)"
  proof (elim disjE conjE exE)
    assume "effects s' = effects s"
    then show ?thesis by simp
  next
    fix msg
    assume "effects s' = effects s @ [LogInfo msg]"
    then show ?thesis by simp
  next
    fix s0 msg
    assume s': "s' = Logger_Info ''Service closed'' (run_stages X sch s0)"
      and rdy: "ready s0 = ready s"
      and eff: "effects s0 = effects s @
                     [BatcherStart, LogInfo msg, Go StageServe, Go StageParser,
                      Go StageWriter, CloseReady]"
    let ?s1 = "parser X (parser_selects sch) (serve (serve_selects sch) s0)"
    have s1: "ready ?s1 = ready s" "create_calls (effects ?s1) = create_calls (effects s)"
      by (simp_all add: parser_frame serve_frame rdy eff)
    from writer_create_calls [of X "writer_selects sch" ?s1]
    show ?thesis
      by (simp add: s' run_stages_def s1 prim_defs)
  qed
qed

theorem creation_succeeds_at_most_once_witness:
  "RunWithReady demo_collab demo_schedule demo_service = Some (None, demo_final) \<and>
   create_calls (effects demo_final) = [Some (Error ''create failed''), None] \<and>
   list_all (\<lambda>r. r \<noteq> None) (butlast (create_calls (effects demo_final))) \<and>
   length (create_calls (effects demo_final)) \<le> length (writer_selects demo_schedule) \<and>
   ready demo_ready_service \<and>
   create_calls (effects (writer demo_collab (writer_selects demo_schedule)
      demo_ready_service)) = []"
proof -
  have rdy: "ready demo_ready_service" and eff: "create_calls (effects demo_ready_service) = []"
    by (simp_all add: demo_ready_service_def demo_defs)
  have fin: "create_calls (effects demo_final) = [Some (Error ''create failed''), None]"
    by (simp add: demo_final_def)
  have sel: "length (writer_selects demo_schedule) = 3"
    by (simp add: demo_schedule_def)
  from creation_succeeds_at_most_once
         [of demo_collab "writer_selects demo_schedule" demo_ready_service]
       creation_succeeds_at_most_once
         [of demo_collab "[]" demo_service demo_schedule None demo_final]
  show ?thesis
    using rdy eff fin sel demo_run by simp
qed

section \<open>Startup\<close>

text \<open>
  Claim C8. If the configured bind address is empty, or the configured database name is
  empty, or the address resolution fails, or binding the socket fails, then \<open>RunWithReady\<close>
  (and \<open>Run\<close>) returns a non-nil error, whatever the stages would have done: no stage loop is
  launched, the ready channel is not closed, and no counter is changed (the service differs
  from the one before the call at most by the address fields and one log line).
\<close>

theorem startup_failure_returns_error:
  assumes "BindAddress (config s) = [] \<or> Database (config s) = [] \<or>
           resolution_fails X s \<or> bind_fails X s"
  shows "\<exists>e s'. RunWithReady X sch s = Some (Some e, s') \<and>
           Run X sch s = Some (Some e, s') \<and>
           RunWithReady X sch2 s = Some (Some e, s') \<and>
           stats s' = stats s \<and> wg s' = wg s \<and> ready s' = ready s \<and>
           batcher s' = batcher s \<and>
           (effects s' = effects s \<or> (\<exists>msg. effects s' = effects s @ [LogInfo msg])) \<and>
           launched (effects s') = launched (effects s) \<and>
           ready_closes (effects s') = ready_closes (effects s)"
  using assms
  by (auto simp add: RunWithReady_def Run_def resolution_fails_def bind_fails_def prim_defs
        split: prod.splits sum.splits)

theorem startup_failure_returns_error_witness:
  "BindAddress (config (demo_service\<lparr>config := demo_config\<lparr>BindAddress := []\<rparr>\<rparr>)) = [] \<and>
   RunWithReady demo_collab demo_schedule
       (demo_service\<lparr>config := demo_config\<lparr>BindAddress := []\<rparr>\<rparr>) =
     Some (Some (Error ''bind address has to be specified in config''),
           demo_service\<lparr>config := demo_config\<lparr>BindAddress := []\<rparr>\<rparr>) \<and>
   Database (config (demo_service\<lparr>config := demo_config\<lparr>Database := []\<rparr>\<rparr>)) = [] \<and>
   RunWithReady demo_collab demo_schedule
       (demo_service\<lparr>config := demo_config\<lparr>Database := []\<rparr>\<rparr>) =
     Some (Some (Error ''database has to be specified in config''),
           demo_service\<lparr>config := demo_config\<lparr>Database := []\<rparr>\<rparr>) \<and>
   resolution_fails demo_collab
       (demo_service\<lparr>config := demo_config\<lparr>BindAddress := ''nowhere:x''\<rparr>\<rparr>) \<and>
   RunWithReady demo_collab demo_schedule
       (demo_service\<lparr>config := demo_config\<lparr>BindAddress := ''nowhere:x''\<rparr>\<rparr>) =
     Some (Some (Error ''unknown port''),
           demo_service\<lparr>config := demo_config\<lparr>BindAddress := ''nowhere:x''\<rparr>,
             effects := [LogInfo ''Failed to resolve UDP address'']\<rparr>) \<and>
   bind_fails demo_collab (demo_service\<lparr>config := demo_config\<lparr>BindAddress := '':53''\<rparr>\<rparr>) \<and>
   RunWithReady demo_collab demo_schedule
       (demo_service\<lparr>config := demo_config\<lparr>BindAddress := '':53''\<rparr>\<rparr>) =
     Some (Some (Error ''address already in use''),
           demo_service\<lparr>config := demo_config\<lparr>BindAddress := '':53''\<rparr>,
             addr := Some (UDPAddr '':53''),
             effects := [LogInfo ''Failed to set up UDP listener'']\<rparr>)"
proof -
  have h1: "BindAddress (config (demo_service\<lparr>config := demo_config\<lparr>BindAddress := []\<rparr>\<rparr>)) = []"
    by simp
  have h2: "Database (config (demo_service\<lparr>config := demo_config\<lparr>Database := []\<rparr>\<rparr>)) = []"
    by simp
  have h3: "resolution_fails demo_collab
       (demo_service\<lparr>config := demo_config\<lparr>BindAddress := ''nowhere:x''\<rparr>\<rparr>)"
    by (simp add: resolution_fails_def demo_defs)
  have h4: "bind_fails demo_collab
       (demo_service\<lparr>config := demo_config\<lparr>BindAddress := '':53''\<rparr>\<rparr>)"
    by (simp add: bind_fails_def demo_defs)
  have r1: "RunWithReady demo_collab demo_schedule
       (demo_service\<lparr>config := demo_config\<lparr>BindAddress := []\<rparr>\<rparr>) =
     Some (Some (Error ''bind address has to be specified in config''),
           demo_service\<lparr>config := demo_config\<lparr>BindAddress := []\<rparr>\<rparr>)"
    by code_simp
  have r2: "RunWithReady demo_collab demo_schedule
       (demo_service\<lparr>config := demo_config\<lparr>Database := []\<rparr>\<rparr>) =
     Some (Some (Error ''database has to be specified in config''),
           demo_service\<lparr>config := demo_config\<lparr>Database := []\<rparr>\<rparr>)"
    by code_simp
  have r3: "RunWithReady demo_collab demo_schedule
       (demo_service\<lparr>config := demo_config\<lparr>BindAddress := ''nowhere:x''\<rparr>\<rparr>) =
     Some (Some (Error ''unknown port''),
           demo_service\<lparr>config := demo_config\<lparr>BindAddress := ''nowhere:x''\<rparr>,
             effects := [LogInfo ''Failed to resolve UDP address'']\<rparr>)"
    by code_simp
  have r4: "RunWithReady demo_collab demo_schedule
       (demo_service\<lparr>config := demo_config\<lparr>BindAddress := '':53''\<rparr>\<rparr>) =
     Some (Some (Error ''address already in use''),
           demo_service\<lparr>config := demo_config\<lparr>BindAddress := '':53''\<rparr>,
             addr := Some (UDPAddr '':53''),
             effects := [LogInfo ''Failed to set up UDP listener'']\<rparr>)"
    by code_simp
  from startup_failure_returns_error
         [of "demo_service\<lparr>config := demo_config\<lparr>BindAddress := []\<rparr>\<rparr>" demo_collab
             demo_schedule demo_cancel_schedule]
       startup_failure_returns_error
         [of "demo_service\<lparr>config := demo_config\<lparr>Database := []\<rparr>\<rparr>" demo_collab
             demo_schedule demo_cancel_schedule]
       startup_failure_returns_error
         [of "demo_service\<lparr>config := demo_config\<lparr>BindAddress := ''nowhere:x''\<rparr>\<rparr>"
             demo_collab demo_schedule demo_cancel_schedule]
       startup_failure_returns_error
         [of "demo_service\<lparr>config := demo_config\<lparr>BindAddress := '':53''\<rparr>\<rparr>" demo_collab
             demo_schedule demo_cancel_schedule]
  show ?thesis
    using h1 h2 h3 h4 r1 r2 r3 r4 by blast
qed

section \<open>The read buffer of the listener\<close>

text \<open>
  Claim C7. The records handed to the batcher are the in-order concatenation of the decode
  results of the payloads that the listener read. The loop of \<open>serve\<close> copies the read
  buffer (l.238-239) when the read goroutine, which has handed the payload over, is free
  to read the next datagram into the same buffer (l.218). On \<open>demo_race_schedule\<close> the
  datagrams read are \<open>[1, 1]\<close> and \<open>[2, 2]\<close>, both decode, and the batcher gets the records of
  \<open>[2, 2]\<close> twice and those of \<open>[1, 1]\<close> never.
\<close>

theorem relayed_payload_overwritten_by_next_read:
  "run_steps demo_collab demo_race_schedule (launch demo_launched) = Some demo_race_final \<and>
   parserChan_sends (effects (service demo_race_final)) = [[2, 2], [2, 2]] \<and>
   batcherIn_sends (effects (service demo_race_final)) = [2, 2, 2, 2] \<and>
   ParsePointsWithPrecision demo_collab [1, 1] 0 (Precision (config demo_launched)) =
     ([1, 1], None) \<and>
   ParsePointsWithPrecision demo_collab [2, 2] 1 (Precision (config demo_launched)) =
     ([2, 2], None) \<and>
   batcherIn_sends (effects (service demo_race_final)) \<noteq> [1, 1] @ [2, 2]"
proof -
  have "run_steps demo_collab demo_race_schedule (launch demo_launched) = Some demo_race_final"
    by (rule demo_race_run)
  moreover have "parserChan_sends (effects (service demo_race_final)) = [[2, 2], [2, 2]]"
    and "batcherIn_sends (effects (service demo_race_final)) = [2, 2, 2, 2]"
    by (simp_all add: demo_race_final_def demo_launched_def demo_defs)
  moreover have
    "ParsePointsWithPrecision demo_collab [1, 1] 0 (Precision (config demo_launched)) =
       ([1, 1], None)"
    "ParsePointsWithPrecision demo_collab [2, 2] 1 (Precision (config demo_launched)) =
       ([2, 2], None)"
    by (simp_all add: demo_launched_def demo_defs)
  ultimately show ?thesis
    by simp
qed

section \<open>Shutdown\<close>

text \<open>
  Claim C9. After the cancellation every stage loop exits and \<open>RunWithReady\<close> returns
  without error, the read in flight being counted as a read failure. The send of \<open>serve\<close>
  into the relay channel (l.240) is not part of a \<open>select\<close>: on \<open>demo_hang_schedule\<close> the
  relay channel is full when \<open>ctx\<close> is cancelled, the parser and the writer return, and
  \<open>serve\<close> stays in that send whatever happens next, so \<open>wg\<close> stays at 1 and \<open>s.wg.Wait()\<close>
  does not return. And when \<open>serve\<close> does take its cancellation case (\<open>demo_cancel_schedule\<close>),
  it returns at once, so nothing receives the read that fails on the closed socket:
  \<open>ReadFail\<close> is what it was.
\<close>

theorem shutdown_blocks_in_relay_send:
  "(\<exists>P. run_steps demo_collab demo_hang_schedule (launch demo_launched) = Some P \<and>
         ctx_cancelled P \<and> parser_returned P \<and> writer_returned P \<and> \<not> serve_returned P \<and>
         pending_send P \<noteq> None \<and> length (parserChan_queue P) = parserChanLen \<and>
         wg (service P) = 1) \<and>
   (\<forall>rest P'. run_steps demo_collab (demo_hang_schedule @ rest) (launch demo_launched) =
        Some P' \<longrightarrow> \<not> serve_returned P' \<and> pending_send P' \<noteq> None \<and> wg (service P') = 1) \<and>
   RunWithReady demo_collab demo_cancel_schedule demo_service = Some (None, demo_cancel_final) \<and>
   ReadFail (stats demo_cancel_final) = ReadFail (stats demo_service)"
proof (intro conjI allI impI)
  from demo_hang_run
  show "\<exists>P. run_steps demo_collab demo_hang_schedule (launch demo_launched) = Some P \<and>
         ctx_cancelled P \<and> parser_returned P \<and> writer_returned P \<and> \<not> serve_returned P \<and>
         pending_send P \<noteq> None \<and> length (parserChan_queue P) = parserChanLen \<and>
         wg (service P) = 1"
    by (auto simp add: serve_stuck_def)
next
  fix rest and P' :: "(nat, nat \<times> nat) Pipeline"
  assume run: "run_steps demo_collab (demo_hang_schedule @ rest) (launch demo_launched) = Some P'"
  from demo_hang_run obtain P where
    P: "run_steps demo_collab demo_hang_schedule (launch demo_launched) = Some P" "serve_stuck P"
    by blast
  from run P(1) have "run_steps demo_collab rest P = Some P'"
    by (simp add: run_steps_append)
  from serve_stuck_run [OF P(2) this]
  show "\<not> serve_returned P'" and "pending_send P' \<noteq> None" and "wg (service P') = 1"
    by (simp_all add: serve_stuck_def)
next
  show "RunWithReady demo_collab demo_cancel_schedule demo_service =
          Some (None, demo_cancel_final)"
    by code_simp
  show "ReadFail (stats demo_cancel_final) = ReadFail (stats demo_service)"
    by (simp add: demo_cancel_final_def)
qed

theorem shutdown_blocks_in_relay_send_witness:
  "run_steps demo_collab (demo_hang_schedule @ [ReadFromUDP [6] None, CtxCancel])
     (launch demo_launched) \<noteq> None \<and>
   \<not> serve_returned (the (run_steps demo_collab
        (demo_hang_schedule @ [ReadFromUDP [6] None, CtxCancel]) (launch demo_launched))) \<and>
   wg (service (the (run_steps demo_collab
        (demo_hang_schedule @ [ReadFromUDP [6] None, CtxCancel]) (launch demo_launched)))) = 1"
proof -
  from demo_hang_run obtain P where
    P: "run_steps demo_collab demo_hang_schedule (launch demo_launched) = Some P"
      "payloadChan P = None"
    by blast
  then obtain P' where
    P': "run_steps demo_collab (demo_hang_schedule @ [ReadFromUDP [6] None, CtxCancel])
           (launch demo_launched) = Some P'"
    by (simp add: run_steps_append Let_def)
  from shutdown_blocks_in_relay_send P'
  have "\<not> serve_returned P' \<and> wg (service P') = 1"
    by blast
  with P' show ?thesis
    by simp
qed

end
